theory Spec2Isabelle
  imports Complex_Main "HOL-Library.Sublist"
begin

section \<open>Flatisfy configuration handling (flatisfy/config.py)\<close>

text \<open>
  The module builds a configuration dictionary from three layers (the constant
  \<open>DEFAULT_CONFIG\<close>, a JSON file, command-line arguments), derives the paths that
  were left unset and validates the result with a chain of \<open>assert\<close> statements.
  The configuration is dynamically typed, and several statements of the specification
  are about ill-shaped values, so the embedding works on a universe of Python values
  and makes every exception a value. The module is read as Python 3 runs it.
\<close>

subsection \<open>Python values\<close>

text \<open>
  A float takes part in comparisons only (\<open>x >= 0\<close>, \<open>bounds[1] > bounds[0]\<close>,
  membership in \<open>[0, 1, 2, 3]\<close>), which Python decides on the exact numeric value, so a
  float is the rational it denotes, an infinity, or NaN (every comparison with NaN is
  false).
\<close>

datatype pyfloat = Finite rat | PosInf | NegInf | NaN

text \<open>
  The values of Python 3 that \<open>DEFAULT_CONFIG\<close>, the JSON decoder and the command line
  produce: \<open>None\<close>, booleans, unbounded integers, floats, texts, lists, tuples, and
  dictionaries keyed by text (every JSON object is), kept in iteration order.
  A text (\<open>str\<close>) is the list of the bytes of its UTF-8 encoding. Equality, concatenation,
  the substring test and the test for a leading or trailing \<open>/\<close> are the same on the
  encoding as on the text; length, iteration, indexing and upper-casing go through the
  code points (\<open>code_points\<close> below).
\<close>

datatype pyval =
    PNone
  | PBool bool
  | PInt int
  | PFloat pyfloat
  | PStr string
  | PList "pyval list"
  | PTuple "pyval list"
  | PDict "(string \<times> pyval) list"

type_synonym pydict = "(string \<times> pyval) list"

subsection \<open>Source positions and exceptions\<close>

text \<open>
  A position is a line of config.py at which an exception can be raised; an
  exception carries the line of the innermost frame, which is what
  \<open>traceback.extract_tb(exc_traceback)[-1]\<close> reports.
\<close>

datatype line =
    L79 | L80 | L88 | L89
  | L97 | L98 | L99
  | L102 | L103 | L104 | L105
  | L108 | L109
  | L111 | L112 | L114 | L115 | L117 | L118 | L120 | L121
  | L123 | L124 | L125 | L126 | L127 | L128 | L129 | L130 | L131
  | L133 | L134 | L136 | L137 | L138 | L140 | L142 | L143 | L144 | L145
  | L169 | L201 | L209 | L210 | L215 | L216

datatype exn =
    AssertionError line
  | KeyError line
  | TypeError line
  | AttributeError line
  | IndexError line
  | NameError line
  | ValueError line
  | RecursionError line

type_synonym 'a res = "exn + 'a"

definition bind_res :: "'a res \<Rightarrow> ('a \<Rightarrow> 'b res) \<Rightarrow> 'b res" where
  "bind_res r f = (case r of Inl e \<Rightarrow> Inl e | Inr x \<Rightarrow> f x)"

text \<open>A block of statements: the first exception leaves the block.\<close>

fun run_stmts :: "unit res list \<Rightarrow> unit res" where
  "run_stmts [] = Inr ()"
| "run_stmts (s # ss) = (case s of Inl e \<Rightarrow> Inl e | Inr _ \<Rightarrow> run_stmts ss)"

text \<open>\<open>for x in xs: body\<close>\<close>

fun py_for :: "'a list \<Rightarrow> ('a \<Rightarrow> unit res) \<Rightarrow> unit res" where
  "py_for [] body = Inr ()"
| "py_for (x # xs) body = (case body x of Inl e \<Rightarrow> Inl e | Inr _ \<Rightarrow> py_for xs body)"

definition py_assert :: "line \<Rightarrow> bool \<Rightarrow> unit res" where
  "py_assert l b = (if b then Inr () else Inl (AssertionError l))"

subsection \<open>The operations of Python that the module uses\<close>

fun fl_less :: "pyfloat \<Rightarrow> pyfloat \<Rightarrow> bool" where
  "fl_less NaN _ = False"
| "fl_less _ NaN = False"
| "fl_less (Finite a) (Finite b) = (a < b)"
| "fl_less NegInf NegInf = False"
| "fl_less NegInf _ = True"
| "fl_less _ NegInf = False"
| "fl_less PosInf _ = False"
| "fl_less _ PosInf = True"

text \<open>\<open>a >= b\<close> on numbers\<close>

definition fl_ge :: "pyfloat \<Rightarrow> pyfloat \<Rightarrow> bool" where
  "fl_ge a b = (a \<noteq> NaN \<and> b \<noteq> NaN \<and> \<not> fl_less a b)"

text \<open>
  The numeric value of an \<open>int\<close>, a \<open>bool\<close> (a subclass of \<open>int\<close>: \<open>True == 1\<close>)
  or a \<open>float\<close>; \<open>None\<close> for every other value.
\<close>

fun num_of :: "pyval \<Rightarrow> pyfloat option" where
  "num_of (PInt i) = Some (Finite (of_int i))"
| "num_of (PBool b) = Some (Finite (if b then 1 else 0))"
| "num_of (PFloat f) = Some f"
| "num_of _ = None"

text \<open>\<open>isinstance(x, str)\<close>\<close>

fun is_str :: "pyval \<Rightarrow> bool" where
  "is_str (PStr _) = True"
| "is_str _ = False"

text \<open>\<open>isinstance(x, int)\<close>\<close>

fun is_int :: "pyval \<Rightarrow> bool" where
  "is_int (PInt _) = True"
| "is_int (PBool _) = True"
| "is_int _ = False"

text \<open>\<open>isinstance(x, (float, int))\<close>\<close>

fun is_float_or_int :: "pyval \<Rightarrow> bool" where
  "is_float_or_int (PInt _) = True"
| "is_float_or_int (PBool _) = True"
| "is_float_or_int (PFloat _) = True"
| "is_float_or_int _ = False"

fun is_dict :: "pyval \<Rightarrow> bool" where
  "is_dict (PDict _) = True"
| "is_dict _ = False"

fun is_list :: "pyval \<Rightarrow> bool" where
  "is_list (PList _) = True"
| "is_list _ = False"

text \<open>\<open>x >= 0\<close> for a number \<open>x\<close>\<close>

definition ge_zero :: "pyval \<Rightarrow> bool" where
  "ge_zero x = (case num_of x of Some f \<Rightarrow> fl_ge f (Finite 0) | None \<Rightarrow> False)"

text \<open>\<open>x > 0\<close> for a number \<open>x\<close>\<close>

definition gt_zero :: "pyval \<Rightarrow> bool" where
  "gt_zero x = (case num_of x of Some f \<Rightarrow> fl_less (Finite 0) f | None \<Rightarrow> False)"

text \<open>\<open>x in [0, 1, 2, 3]\<close>: equality with an integer is numeric, false on other types.\<close>

definition in_int_list :: "pyval \<Rightarrow> int list \<Rightarrow> bool" where
  "in_int_list x ns = (case num_of x of Some f \<Rightarrow> f \<in> set (map (\<lambda>n. Finite (of_int n)) ns) | None \<Rightarrow> False)"

text \<open>
  The code points of a text, each as the bytes that encode it: the first byte of a code
  point tells how many bytes it takes (one below \<open>0xC0\<close>, two below \<open>0xE0\<close>, three
  below \<open>0xF0\<close>, four from there on).
\<close>

definition utf8_width :: "char \<Rightarrow> nat" where
  "utf8_width c =
     (let n = (of_char c :: nat)
      in if n < 192 then 1 else if n < 224 then 2 else if n < 240 then 3 else 4)"

function code_points :: "string \<Rightarrow> string list" where
  "code_points [] = []"
| "code_points (c # cs) =
     (c # take (utf8_width c - 1) cs) # code_points (drop (utf8_width c - 1) cs)"
  by pat_completeness auto
termination
  by (relation "measure length") auto

text \<open>Truth value of an object in a condition or an \<open>assert\<close>.\<close>

fun truthy :: "pyval \<Rightarrow> bool" where
  "truthy PNone = False"
| "truthy (PBool b) = b"
| "truthy (PInt i) = (i \<noteq> 0)"
| "truthy (PFloat f) = (f \<noteq> Finite 0)"
| "truthy (PStr s) = (s \<noteq> [])"
| "truthy (PList xs) = (xs \<noteq> [])"
| "truthy (PTuple xs) = (xs \<noteq> [])"
| "truthy (PDict d) = (d \<noteq> [])"

text \<open>\<open>len(x)\<close>: a TypeError on an object without length.\<close>

fun py_len :: "line \<Rightarrow> pyval \<Rightarrow> nat res" where
  "py_len l (PStr s) = Inr (length (code_points s))"
| "py_len l (PList xs) = Inr (length xs)"
| "py_len l (PTuple xs) = Inr (length xs)"
| "py_len l (PDict d) = Inr (length d)"
| "py_len l _ = Inl (TypeError l)"

text \<open>
  \<open>for x in v\<close>: the elements of a list or tuple, the characters of a text, the keys of
  a dictionary; a TypeError on an object that is not iterable.
\<close>

fun py_iter :: "line \<Rightarrow> pyval \<Rightarrow> pyval list res" where
  "py_iter l (PList xs) = Inr xs"
| "py_iter l (PTuple xs) = Inr xs"
| "py_iter l (PStr s) = Inr (map PStr (code_points s))"
| "py_iter l (PDict d) = Inr (map (\<lambda>kv. PStr (fst kv)) d)"
| "py_iter l _ = Inl (TypeError l)"

text \<open>
  \<open>v[k]\<close> with a text key \<open>k\<close>: the value under \<open>k\<close> in a dictionary, a KeyError
  when the key is missing, a TypeError on every other object (lists, tuples and texts
  take integer indices only, the rest is not subscriptable).
\<close>

fun py_getitem :: "line \<Rightarrow> pyval \<Rightarrow> string \<Rightarrow> pyval res" where
  "py_getitem l (PDict d) k = (case map_of d k of Some v \<Rightarrow> Inr v | None \<Rightarrow> Inl (KeyError l))"
| "py_getitem l _ k = Inl (TypeError l)"

text \<open>
  \<open>v[i]\<close> with a non-negative integer index \<open>i\<close>: an IndexError out of range; a
  dictionary keyed by text has no integer key (KeyError).
\<close>

fun py_index :: "line \<Rightarrow> pyval \<Rightarrow> nat \<Rightarrow> pyval res" where
  "py_index l (PList xs) i = (if i < length xs then Inr (xs ! i) else Inl (IndexError l))"
| "py_index l (PTuple xs) i = (if i < length xs then Inr (xs ! i) else Inl (IndexError l))"
| "py_index l (PStr s) i =
     (if i < length (code_points s) then Inr (PStr (code_points s ! i)) else Inl (IndexError l))"
| "py_index l (PDict d) i = Inl (KeyError l)"
| "py_index l _ i = Inl (TypeError l)"

text \<open>
  \<open>k in v\<close> for a text \<open>k\<close>: a key of a dictionary, an element of a list or tuple, a
  substring of a text; a TypeError on every other object.
\<close>

fun py_contains :: "line \<Rightarrow> string \<Rightarrow> pyval \<Rightarrow> bool res" where
  "py_contains l k (PDict d) = Inr (k \<in> set (map fst d))"
| "py_contains l k (PList xs) = Inr (PStr k \<in> set xs)"
| "py_contains l k (PTuple xs) = Inr (PStr k \<in> set xs)"
| "py_contains l k (PStr s) = Inr (sublist k s)"
| "py_contains l k _ = Inl (TypeError l)"

text \<open>
  \<open>str.upper\<close>, code point by code point. The module only compares the result with
  names made of the letters A to Z (lines 99 and 105), and the model is exact on every
  code point whose upper-case form is made of such letters: a to z, the dotless i
  (U+0131), the long s (U+017F), the sharp s (U+00DF, \<open>SS\<close>) and the ligatures U+FB00 to
  U+FB06 (\<open>FF\<close>, \<open>FI\<close>, \<open>FL\<close>, \<open>FFI\<close>, \<open>FFL\<close>, \<open>ST\<close>, \<open>ST\<close>). Every other code
  point is kept: its upper-case form in Python is itself or holds a character outside
  A to Z, so no comparison with such a name changes.
\<close>

definition upper_code_point :: "string \<Rightarrow> string" where
  "upper_code_point cp =
     (case cp of
        [c] \<Rightarrow>
          (let n = (of_char c :: nat)
           in if 97 \<le> n \<and> n \<le> 122 then [char_of (n - 32)] else cp)
      | _ \<Rightarrow>
          if cp = [CHR 0xC4, CHR 0xB1] then ''I''
          else if cp = [CHR 0xC5, CHR 0xBF] then ''S''
          else if cp = [CHR 0xC3, CHR 0x9F] then ''SS''
          else if cp = [CHR 0xEF, CHR 0xAC, CHR 0x80] then ''FF''
          else if cp = [CHR 0xEF, CHR 0xAC, CHR 0x81] then ''FI''
          else if cp = [CHR 0xEF, CHR 0xAC, CHR 0x82] then ''FL''
          else if cp = [CHR 0xEF, CHR 0xAC, CHR 0x83] then ''FFI''
          else if cp = [CHR 0xEF, CHR 0xAC, CHR 0x84] then ''FFL''
          else if cp = [CHR 0xEF, CHR 0xAC, CHR 0x85] then ''ST''
          else if cp = [CHR 0xEF, CHR 0xAC, CHR 0x86] then ''ST''
          else cp)"

definition upper :: "string \<Rightarrow> string" where
  "upper s = concat (map upper_code_point (code_points s))"

text \<open>\<open>x.upper()\<close>: only a text has the method, an AttributeError otherwise.\<close>

fun py_upper :: "line \<Rightarrow> pyval \<Rightarrow> string res" where
  "py_upper l (PStr s) = Inr (upper s)"
| "py_upper l _ = Inl (AttributeError l)"

text \<open>\<open>d.items()\<close>\<close>

fun py_items :: "line \<Rightarrow> pyval \<Rightarrow> (string \<times> pyval) list res" where
  "py_items l (PDict d) = Inr d"
| "py_items l _ = Inl (AttributeError l)"

subsection \<open>The text of the source lines\<close>

text \<open>
  On a failure \<open>validate_config\<close> returns the text of the line of the innermost frame of
  the traceback, stripped of its indentation. A statement that spans several lines
  (lines 80 and 99) is reported at its first line.
\<close>

fun src_line :: "line \<Rightarrow> string" where
  \<open>src_line L79 = ''assert len(bounds) == 2''\<close>
| \<open>src_line L80 = ''assert all(''\<close>
| \<open>src_line L88 = ''if bounds[0] is not None and bounds[1] is not None:''\<close>
| \<open>src_line L89 = ''assert bounds[1] > bounds[0]''\<close>
| \<open>src_line L97 = ''assert "type" in config["constraints"]''\<close>
| \<open>src_line L98 = ''assert isinstance(config["constraints"]["type"], (str, unicode))''\<close>
| \<open>src_line L99 = ''assert config["constraints"]["type"].upper() in ["RENT",''\<close>
| \<open>src_line L102 = ''assert "house_types" in config["constraints"]''\<close>
| \<open>src_line L103 = ''assert config["constraints"]["house_types"]''\<close>
| \<open>src_line L104 = ''for house_type in config["constraints"]["house_types"]:''\<close>
| \<open>src_line L105 = ''assert house_type.upper() in ["APART", "HOUSE", "PARKING", "LAND",''\<close>
| \<open>src_line L108 = ''assert "postal_codes" in config["constraints"]''\<close>
| \<open>src_line L109 = ''assert config["constraints"]["postal_codes"]''\<close>
| \<open>src_line L111 = ''assert "area" in config["constraints"]''\<close>
| \<open>src_line L112 = ''_check_constraints_bounds(config["constraints"]["area"])''\<close>
| \<open>src_line L114 = ''assert "cost" in config["constraints"]''\<close>
| \<open>src_line L115 = ''_check_constraints_bounds(config["constraints"]["cost"])''\<close>
| \<open>src_line L117 = ''assert "rooms" in config["constraints"]''\<close>
| \<open>src_line L118 = ''_check_constraints_bounds(config["constraints"]["rooms"])''\<close>
| \<open>src_line L120 = ''assert "bedrooms" in config["constraints"]''\<close>
| \<open>src_line L121 = ''_check_constraints_bounds(config["constraints"]["bedrooms"])''\<close>
| \<open>src_line L123 = ''assert "time_to" in config["constraints"]''\<close>
| \<open>src_line L124 = ''assert isinstance(config["constraints"]["time_to"], dict)''\<close>
| \<open>src_line L125 = ''for name, item in config["constraints"]["time_to"].items():''\<close>
| \<open>src_line L126 = ''assert isinstance(name, str)''\<close>
| \<open>src_line L127 = ''assert "gps" in item''\<close>
| \<open>src_line L128 = ''assert isinstance(item["gps"], list)''\<close>
| \<open>src_line L129 = ''assert len(item["gps"]) == 2''\<close>
| \<open>src_line L130 = ''assert "time" in item''\<close>
| \<open>src_line L131 = ''_check_constraints_bounds(item["time"])''\<close>
| \<open>src_line L133 = ''assert config["passes"] in [0, 1, 2, 3]''\<close>
| \<open>src_line L134 = ''assert config["max_entries"] is None or (isinstance(config["max_entries"], int) and config["max_entries"] > 0)  # noqa: E501''\<close>
| \<open>src_line L136 = ''assert config["data_directory"] is None or isinstance(config["data_directory"], str)  # noqa: E501''\<close>
| \<open>src_line L137 = ''assert isinstance(config["search_index"], str)''\<close>
| \<open>src_line L138 = ''assert config["modules_path"] is None or isinstance(config["modules_path"], str)  # noqa: E501''\<close>
| \<open>src_line L140 = ''assert config["database"] is None or isinstance(config["database"], str)  # noqa: E501''\<close>
| \<open>src_line L142 = ''assert isinstance(config["port"], int)''\<close>
| \<open>src_line L143 = ''assert isinstance(config["host"], str)''\<close>
| \<open>src_line L144 = ''assert config["webserver"] is None or isinstance(config["webserver"], str)  # noqa: E501''\<close>
| \<open>src_line L145 = ''assert config["backends"] is None or isinstance(config["backends"], list)  # noqa: E501''\<close>
| \<open>src_line L169 = ''config_data.update(json.load(fh))''\<close>
| \<open>src_line L201 = ''elif config_data["data_directory"] is None:''\<close>
| \<open>src_line L209 = ''if config_data["database"] is None:''\<close>
| \<open>src_line L210 = ''config_data["database"] = "sqlite:///" + os.path.join(''\<close>
| \<open>src_line L215 = ''if config_data["search_index"] is None:''\<close>
| \<open>src_line L216 = ''config_data["search_index"] = os.path.join(''\<close>

subsection \<open>validate_config\<close>

text \<open>
  \<open>bounds[1] > bounds[0]\<close> (line 89). Both operands have passed the check of
  line 80 and are not \<open>None\<close>, so they are numbers, which Python orders by value;
  the model gives a TypeError to the other pairs, and \<open>bounds_no_TypeError_L89\<close>
  below shows that none reaches the comparison.
\<close>

definition py_gt :: "line \<Rightarrow> pyval \<Rightarrow> pyval \<Rightarrow> bool res" where
  "py_gt l a b =
     (case (num_of a, num_of b) of
        (Some x, Some y) \<Rightarrow> Inr (fl_less y x)
      | _ \<Rightarrow> Inl (TypeError l))"

text \<open>The nested function \<open>_check_constraints_bounds\<close> (lines 75 to 89).\<close>

definition check_constraints_bounds :: "pyval \<Rightarrow> unit res" where
  "check_constraints_bounds bounds = run_stmts [
     bind_res (py_len L79 bounds) (\<lambda>n. py_assert L79 (n = 2)),
     bind_res (py_iter L80 bounds) (\<lambda>xs.
       py_assert L80 (list_all (\<lambda>x. x = PNone \<or> (is_float_or_int x \<and> ge_zero x)) xs)),
     bind_res (py_index L88 bounds 0) (\<lambda>b0.
       if b0 \<noteq> PNone then
         bind_res (py_index L88 bounds 1) (\<lambda>b1.
           if b1 \<noteq> PNone then
             bind_res (py_index L89 bounds 1) (\<lambda>hi.
             bind_res (py_index L89 bounds 0) (\<lambda>lo.
             bind_res (py_gt L89 hi lo) (py_assert L89)))
           else Inr ())
       else Inr ())
   ]"

text \<open>\<open>config["constraints"][k]\<close> and \<open>k in config["constraints"]\<close>, evaluated at line \<open>l\<close>.\<close>

definition constraint :: "line \<Rightarrow> pyval \<Rightarrow> string \<Rightarrow> pyval res" where
  "constraint l config k = bind_res (py_getitem l config ''constraints'') (\<lambda>c. py_getitem l c k)"

definition has_constraint :: "line \<Rightarrow> pyval \<Rightarrow> string \<Rightarrow> bool res" where
  "has_constraint l config k = bind_res (py_getitem l config ''constraints'') (py_contains l k)"

text \<open>
  The name \<open>unicode\<close>, read at line 98. The module binds it nowhere (its only
  compatibility import is \<open>from builtins import str\<close>) and Python 3 has no builtin of
  that name: reading it raises a NameError.
\<close>

definition unicode_name :: "line \<Rightarrow> unit res" where
  "unicode_name l = Inl (NameError l)"

text \<open>The body of the loop over \<open>house_types\<close> (line 105).\<close>

definition check_house_type :: "pyval \<Rightarrow> unit res" where
  "check_house_type house_type =
     bind_res (py_upper L105 house_type) (\<lambda>u.
       py_assert L105
         (u \<in> set [''APART'', ''HOUSE'', ''PARKING'', ''LAND'', ''OTHER'', ''UNKNOWN'']))"

text \<open>The body of the loop over \<open>time_to\<close> (lines 126 to 131).\<close>

definition check_time_to_item :: "string \<times> pyval \<Rightarrow> unit res" where
  "check_time_to_item = (\<lambda>(name, item). run_stmts [
     py_assert L126 (is_str (PStr name)),
     bind_res (py_contains L127 ''gps'' item) (py_assert L127),
     bind_res (py_getitem L128 item ''gps'') (\<lambda>g. py_assert L128 (is_list g)),
     bind_res (py_getitem L129 item ''gps'') (\<lambda>g.
       bind_res (py_len L129 g) (\<lambda>n. py_assert L129 (n = 2))),
     bind_res (py_contains L130 ''time'' item) (py_assert L130),
     bind_res (py_getitem L131 item ''time'') check_constraints_bounds
   ])"

text \<open>The statements of the \<open>try\<close> block (lines 97 to 145), in order.\<close>

definition validate_config_stmts :: "pyval \<Rightarrow> unit res list" where
  "validate_config_stmts config = [
     bind_res (has_constraint L97 config ''type'') (py_assert L97),
     bind_res (constraint L98 config ''type'') (\<lambda>t.
       bind_res (unicode_name L98) (\<lambda>_. py_assert L98 (is_str t))),
     bind_res (constraint L99 config ''type'') (\<lambda>t.
       bind_res (py_upper L99 t) (\<lambda>u. py_assert L99 (u \<in> set [''RENT'', ''SALE'', ''SHARING'']))),

     bind_res (has_constraint L102 config ''house_types'') (py_assert L102),
     bind_res (constraint L103 config ''house_types'') (\<lambda>hs. py_assert L103 (truthy hs)),
     bind_res (constraint L104 config ''house_types'') (\<lambda>hs.
       bind_res (py_iter L104 hs) (\<lambda>xs. py_for xs check_house_type)),

     bind_res (has_constraint L108 config ''postal_codes'') (py_assert L108),
     bind_res (constraint L109 config ''postal_codes'') (\<lambda>ps. py_assert L109 (truthy ps)),

     bind_res (has_constraint L111 config ''area'') (py_assert L111),
     bind_res (constraint L112 config ''area'') check_constraints_bounds,

     bind_res (has_constraint L114 config ''cost'') (py_assert L114),
     bind_res (constraint L115 config ''cost'') check_constraints_bounds,

     bind_res (has_constraint L117 config ''rooms'') (py_assert L117),
     bind_res (constraint L118 config ''rooms'') check_constraints_bounds,

     bind_res (has_constraint L120 config ''bedrooms'') (py_assert L120),
     bind_res (constraint L121 config ''bedrooms'') check_constraints_bounds,

     bind_res (has_constraint L123 config ''time_to'') (py_assert L123),
     bind_res (constraint L124 config ''time_to'') (\<lambda>t. py_assert L124 (is_dict t)),
     bind_res (constraint L125 config ''time_to'') (\<lambda>t.
       bind_res (py_items L125 t) (\<lambda>items. py_for items check_time_to_item)),

     bind_res (py_getitem L133 config ''passes'') (\<lambda>p. py_assert L133 (in_int_list p [0, 1, 2, 3])),
     bind_res (py_getitem L134 config ''max_entries'') (\<lambda>m.
       py_assert L134 (m = PNone \<or> (is_int m \<and> gt_zero m))),

     bind_res (py_getitem L136 config ''data_directory'') (\<lambda>d. py_assert L136 (d = PNone \<or> is_str d)),
     bind_res (py_getitem L137 config ''search_index'') (\<lambda>s. py_assert L137 (is_str s)),
     bind_res (py_getitem L138 config ''modules_path'') (\<lambda>m. py_assert L138 (m = PNone \<or> is_str m)),

     bind_res (py_getitem L140 config ''database'') (\<lambda>d. py_assert L140 (d = PNone \<or> is_str d)),

     bind_res (py_getitem L142 config ''port'') (\<lambda>p. py_assert L142 (is_int p)),
     bind_res (py_getitem L143 config ''host'') (\<lambda>h. py_assert L143 (is_str h)),
     bind_res (py_getitem L144 config ''webserver'') (\<lambda>w. py_assert L144 (w = PNone \<or> is_str w)),
     bind_res (py_getitem L145 config ''backends'') (\<lambda>b. py_assert L145 (b = PNone \<or> is_list b))
   ]"

definition validate_config_body :: "pyval \<Rightarrow> unit res" where
  "validate_config_body config = run_stmts (validate_config_stmts config)"

text \<open>
  \<open>validate_config\<close>: \<open>True\<close> when the block ends; an AssertionError or a KeyError is
  caught and the text of its line returned; every other exception (TypeError,
  AttributeError, NameError) leaves the function.
\<close>

definition validate_config :: "pyval \<Rightarrow> pyval res" where
  "validate_config config =
     (case validate_config_body config of
        Inr _ \<Rightarrow> Inr (PBool True)
      | Inl (AssertionError l) \<Rightarrow> Inr (PStr (src_line l))
      | Inl (KeyError l) \<Rightarrow> Inr (PStr (src_line l))
      | Inl e \<Rightarrow> Inl e)"

subsection \<open>DEFAULT_CONFIG\<close>

definition DEFAULT_CONFIG :: pydict where
  "DEFAULT_CONFIG = [
     (''constraints'', PDict [
        (''type'', PNone),
        (''house_types'', PList []),
        (''postal_codes'', PList []),
        (''area'', PTuple [PNone, PNone]),
        (''cost'', PTuple [PNone, PNone]),
        (''rooms'', PTuple [PNone, PNone]),
        (''bedrooms'', PTuple [PNone, PNone]),
        (''time_to'', PDict [])]),
     (''navitia_api_key'', PNone),
     (''passes'', PInt 3),
     (''max_entries'', PNone),
     (''data_directory'', PNone),
     (''modules_path'', PNone),
     (''database'', PNone),
     (''search_index'', PNone),
     (''port'', PInt 8080),
     (''host'', PStr ''127.0.0.1''),
     (''webserver'', PNone),
     (''backends'', PNone)]"

subsection \<open>load_config\<close>

text \<open>
  \<open>config_data\<close>, the dictionary that \<open>load_config\<close> builds, is kept as its entries
  under text keys. (A file that is a list of pairs can add a key that is not a text; no
  statement of the module reads such a key, and the model leaves it out.)
\<close>

text \<open>\<open>d[k] = v\<close>: an existing key keeps its place, a new key goes last.\<close>

fun dict_set :: "string \<Rightarrow> pyval \<Rightarrow> pydict \<Rightarrow> pydict" where
  "dict_set k v [] = [(k, v)]"
| "dict_set k v ((k', v') # rest) =
     (if k' = k then (k, v) # rest else (k', v') # dict_set k v rest)"

text \<open>\<open>d.update(other)\<close> for a dictionary \<open>other\<close>: one level deep, key by key.\<close>

definition dict_update :: "pydict \<Rightarrow> pydict \<Rightarrow> pydict" where
  "dict_update d other = fold (\<lambda>kv. dict_set (fst kv) (snd kv)) other d"

text \<open>
  \<open>d.update(other)\<close> for an \<open>other\<close> that is no dictionary: \<open>other\<close> is iterated, and
  each element must be a sequence of length 2, a key and a value. An object that is not
  iterable, an element that is not, and a key that cannot be hashed (a list, a
  dictionary) raise a TypeError; an element of another length raises a ValueError. The
  elements before the one that raises have been merged.
\<close>

fun hashable :: "pyval \<Rightarrow> bool" where
  "hashable (PList xs) = False"
| "hashable (PDict d) = False"
| "hashable (PTuple xs) = (\<forall>x\<in>set xs. hashable x)"
| "hashable _ = True"

fun pair_of :: "line \<Rightarrow> pyval \<Rightarrow> (pyval \<times> pyval) res" where
  "pair_of l (PList xs) = (case xs of [k, v] \<Rightarrow> Inr (k, v) | _ \<Rightarrow> Inl (ValueError l))"
| "pair_of l (PTuple xs) = (case xs of [k, v] \<Rightarrow> Inr (k, v) | _ \<Rightarrow> Inl (ValueError l))"
| "pair_of l (PStr s) =
     (case code_points s of [k, v] \<Rightarrow> Inr (PStr k, PStr v) | _ \<Rightarrow> Inl (ValueError l))"
| "pair_of l (PDict d) =
     (case map fst d of [k, v] \<Rightarrow> Inr (PStr k, PStr v) | _ \<Rightarrow> Inl (ValueError l))"
| "pair_of l _ = Inl (TypeError l)"

fun update_from_seq :: "line \<Rightarrow> pyval list \<Rightarrow> pydict \<Rightarrow> pydict \<times> exn option" where
  "update_from_seq l [] d = (d, None)"
| "update_from_seq l (x # xs) d =
     (case pair_of l x of
        Inl err \<Rightarrow> (d, Some err)
      | Inr (k, v) \<Rightarrow>
          if \<not> hashable k then (d, Some (TypeError l))
          else update_from_seq l xs (case k of PStr key \<Rightarrow> dict_set key v d | _ \<Rightarrow> d))"

fun py_dict_update :: "line \<Rightarrow> pydict \<Rightarrow> pyval \<Rightarrow> pydict \<times> exn option" where
  "py_dict_update l d (PDict other) = (dict_update d other, None)"
| "py_dict_update l d (PList xs) = update_from_seq l xs d"
| "py_dict_update l d (PTuple xs) = update_from_seq l xs d"
| "py_dict_update l d (PStr s) = update_from_seq l (map PStr (code_points s)) d"
| "py_dict_update l d _ = (d, Some (TypeError l))"

text \<open>
  The command-line options that \<open>load_config\<close> reads from the argparse structure, each
  \<open>None\<close> when the option was not given (\<open>getattr(args, name, None)\<close>), with the types
  the command line gives them: text for \<open>config\<close>, \<open>host\<close> and \<open>data_dir\<close>, integers for
  \<open>passes\<close>, \<open>max_entries\<close> and \<open>port\<close>.
\<close>

record args =
  arg_config :: "string option"
  arg_passes :: "int option"
  arg_max_entries :: "int option"
  arg_port :: "int option"
  arg_host :: "string option"
  arg_data_dir :: "string option"

text \<open>
  What \<open>open(args.config)\<close> followed by \<open>json.load\<close> comes to: an IOError (the file is
  missing or unreadable), a ValueError (the content is not JSON), a RecursionError (the
  content is nested too deep for the decoder), or the decoded content, any JSON value.
\<close>

datatype file_outcome =
    RaisesIOError
  | RaisesValueError
  | RaisesRecursionError
  | Decoded pyval

text \<open>
  The collaborators outside the module: the file system behind \<open>json.load\<close>, and
  \<open>appdirs.user_data_dir("flatisfy", "flatisfy")\<close>, a path fixed by the platform.
\<close>

record env =
  json_load :: "string \<Rightarrow> file_outcome"
  user_data_dir :: string

text \<open>
  \<open>os.path.join(a, b)\<close> of \<open>posixpath\<close> for a relative or absolute \<open>b\<close>; a first
  argument that is not a path raises a TypeError.
\<close>

definition path_join :: "string \<Rightarrow> string \<Rightarrow> string" where
  "path_join a b =
     (if prefix ''/'' b then b
      else if a = [] \<or> suffix ''/'' a then a @ b
      else a @ ''/'' @ b)"

fun os_path_join :: "line \<Rightarrow> pyval \<Rightarrow> string \<Rightarrow> string res" where
  "os_path_join l (PStr a) b = Inr (path_join a b)"
| "os_path_join l _ b = Inl (TypeError l)"

text \<open>
  Lines 164 to 175: the file is read when \<open>args\<close> is given and \<open>args.config\<close> is a
  non-empty text. The \<open>except\<close> clause catches an IOError and a ValueError, of the
  decoder or of \<open>update\<close>: the configuration is then left as it is at that point. A
  RecursionError of the decoder and a TypeError of \<open>update\<close> leave the function.
\<close>

definition load_json_file :: "env \<Rightarrow> args option \<Rightarrow> pydict \<Rightarrow> pydict res" where
  "load_json_file e a config_data =
     (case a of
        None \<Rightarrow> Inr config_data
      | Some ar \<Rightarrow>
          (case arg_config ar of
             None \<Rightarrow> Inr config_data
           | Some path \<Rightarrow>
               if path = [] then Inr config_data
               else (case json_load e path of
                       RaisesIOError \<Rightarrow> Inr config_data
                     | RaisesValueError \<Rightarrow> Inr config_data
                     | RaisesRecursionError \<Rightarrow> Inl (RecursionError L169)
                     | Decoded content \<Rightarrow>
                         (case py_dict_update L169 config_data content of
                            (updated, None) \<Rightarrow> Inr updated
                          | (updated, Some (ValueError l)) \<Rightarrow> Inr updated
                          | (updated, Some err) \<Rightarrow> Inl err))))"

text \<open>\<open>if args and getattr(args, name, None) is not None\<close>\<close>

definition given :: "args option \<Rightarrow> (args \<Rightarrow> 'a option) \<Rightarrow> 'a option" where
  "given a field = (case a of None \<Rightarrow> None | Some ar \<Rightarrow> field ar)"

text \<open>Lines 177 to 195: the options of the command line, one by one.\<close>

definition overload_with_args :: "args option \<Rightarrow> pydict \<Rightarrow> pydict" where
  "overload_with_args a config_data =
     (let c1 = (case given a arg_passes of
                  Some p \<Rightarrow> dict_set ''passes'' (PInt p) config_data | None \<Rightarrow> config_data);
          c2 = (case given a arg_max_entries of
                  Some m \<Rightarrow> dict_set ''max_entries'' (PInt m) c1 | None \<Rightarrow> c1);
          c3 = (case given a arg_port of
                  Some p \<Rightarrow> dict_set ''port'' (PInt p) c2 | None \<Rightarrow> c2);
          c4 = (case given a arg_host of
                  Some h \<Rightarrow> dict_set ''host'' (PStr h) c3 | None \<Rightarrow> c3)
      in c4)"

text \<open>Lines 197 to 207.\<close>

definition handle_data_directory :: "env \<Rightarrow> args option \<Rightarrow> pydict \<Rightarrow> pydict res" where
  "handle_data_directory e a config_data =
     (case given a arg_data_dir of
        Some d \<Rightarrow> Inr (dict_set ''data_directory'' (PStr d) config_data)
      | None \<Rightarrow>
          bind_res (py_getitem L201 (PDict config_data) ''data_directory'') (\<lambda>v.
            if v = PNone
            then Inr (dict_set ''data_directory'' (PStr (user_data_dir e)) config_data)
            else Inr config_data))"

text \<open>Lines 209 to 213.\<close>

definition default_database :: "pydict \<Rightarrow> pydict res" where
  "default_database config_data =
     bind_res (py_getitem L209 (PDict config_data) ''database'') (\<lambda>v.
       if v = PNone then
         bind_res (py_getitem L210 (PDict config_data) ''data_directory'') (\<lambda>d.
         bind_res (os_path_join L210 d ''flatisfy.db'') (\<lambda>p.
           Inr (dict_set ''database'' (PStr (''sqlite:///'' @ p)) config_data)))
       else Inr config_data)"

text \<open>Lines 215 to 219.\<close>

definition default_search_index :: "pydict \<Rightarrow> pydict res" where
  "default_search_index config_data =
     bind_res (py_getitem L215 (PDict config_data) ''search_index'') (\<lambda>v.
       if v = PNone then
         bind_res (py_getitem L216 (PDict config_data) ''data_directory'') (\<lambda>d.
         bind_res (os_path_join L216 d ''search_index'') (\<lambda>p.
           Inr (dict_set ''search_index'' (PStr p) config_data)))
       else Inr config_data)"

text \<open>Lines 162 to 195: a copy of the baseline, then the file, then the command line.\<close>

definition merged_config :: "env \<Rightarrow> args option \<Rightarrow> pydict res" where
  "merged_config e a =
     bind_res (load_json_file e a DEFAULT_CONFIG) (\<lambda>config_data.
       Inr (overload_with_args a config_data))"

text \<open>Lines 162 to 219: the configuration that is handed to \<open>validate_config\<close>.\<close>

definition resolved_config :: "env \<Rightarrow> args option \<Rightarrow> pydict res" where
  "resolved_config e a =
     bind_res (merged_config e a) (\<lambda>merged.
     bind_res (handle_data_directory e a merged) (\<lambda>c.
     bind_res (default_database c) default_search_index))"

text \<open>
  \<open>load_config\<close>: the configuration when \<open>validate_config\<close> returned the object
  \<open>True\<close>, \<open>None\<close> otherwise.
\<close>

definition load_config :: "env \<Rightarrow> args option \<Rightarrow> pyval res" where
  "load_config e a =
     bind_res (resolved_config e a) (\<lambda>config_data.
     bind_res (validate_config (PDict config_data)) (\<lambda>config_validation.
       if config_validation = PBool True then Inr (PDict config_data) else Inr PNone))"

subsection \<open>Notions used to state the properties\<close>

text \<open>A non-negative number: an instance of \<open>float\<close> or \<open>int\<close> that is \<open>>= 0\<close>.\<close>

definition non_negative_number :: "pyval \<Rightarrow> bool" where
  "non_negative_number x = (is_float_or_int x \<and> ge_zero x)"

text \<open>\<open>hi\<close> is a number strictly greater than the number \<open>lo\<close>.\<close>

definition strictly_greater :: "pyval \<Rightarrow> pyval \<Rightarrow> bool" where
  "strictly_greater hi lo =
     (case (num_of hi, num_of lo) of (Some y, Some x) \<Rightarrow> fl_less x y | _ \<Rightarrow> False)"

text \<open>
  What reading the configuration file came to, \<open>None\<close> when no file is read (no
  \<open>args\<close>, no \<open>args.config\<close>, or an empty one).
\<close>

definition file_read :: "env \<Rightarrow> args option \<Rightarrow> file_outcome option" where
  "file_read e a =
     (case given a arg_config of
        None \<Rightarrow> None
      | Some path \<Rightarrow> if path = [] then None else Some (json_load e path))"

text \<open>The value that the file gives to a key, when the file holds a JSON object.\<close>

definition file_value :: "env \<Rightarrow> args option \<Rightarrow> string \<Rightarrow> pyval option" where
  "file_value e a k =
     (case file_read e a of Some (Decoded (PDict obj)) \<Rightarrow> map_of obj k | _ \<Rightarrow> None)"

text \<open>
  The file layer is plain when no file is read, or reading it raises the IOError or
  ValueError that \<open>load_config\<close> catches, or the file holds a JSON object (whose keys
  are distinct, as those of a dictionary are).
\<close>

definition file_plain :: "env \<Rightarrow> args option \<Rightarrow> bool" where
  "file_plain e a =
     (case file_read e a of
        None \<Rightarrow> True
      | Some RaisesIOError \<Rightarrow> True
      | Some RaisesValueError \<Rightarrow> True
      | Some (Decoded (PDict obj)) \<Rightarrow> distinct (map fst obj)
      | _ \<Rightarrow> False)"

text \<open>A key is unset in the file layer when the file does not bind it or binds it to \<open>None\<close>.\<close>

definition file_unset :: "env \<Rightarrow> args option \<Rightarrow> string \<Rightarrow> bool" where
  "file_unset e a k = (file_value e a k = None \<or> file_value e a k = Some PNone)"

text \<open>The field \<open>k\<close> of the configuration that lines 162 to 219 resolved, if they raised nothing.\<close>

definition resolved_field :: "pydict res \<Rightarrow> string \<Rightarrow> pyval option" where
  "resolved_field r k = (case r of Inr c \<Rightarrow> map_of c k | Inl _ \<Rightarrow> None)"

subsection \<open>Sample inputs\<close>

text \<open>A constraints block that meets every constraint that the validator states.\<close>

definition sample_constraints :: pyval where
  "sample_constraints = PDict [
     (''type'', PStr ''rent''),
     (''house_types'', PList [PStr ''apart'']),
     (''postal_codes'', PList [PStr ''75010'']),
     (''area'', PList [PInt 30, PNone]),
     (''cost'', PList [PNone, PInt 1500]),
     (''rooms'', PList [PInt 2, PInt 4]),
     (''bedrooms'', PList [PNone, PNone]),
     (''time_to'', PDict [
        (''work'', PDict [
           (''gps'', PList [PFloat (Finite (977 / 20)), PFloat (Finite (47 / 20))]),
           (''time'', PList [PNone, PInt 1800])])])]"

text \<open>The baseline with these constraints and a search index.\<close>

definition sample_config :: pyval where
  "sample_config =
     PDict (dict_set ''search_index'' (PStr ''/srv/index'')
             (dict_set ''constraints'' sample_constraints DEFAULT_CONFIG))"

text \<open>A file system with a few configuration files, and no command-line option.\<close>

definition sample_files :: "string \<Rightarrow> file_outcome" where
  "sample_files path =
     (if path = ''flatisfy.json'' then Decoded (PDict [(''constraints'', sample_constraints)])
      else if path = ''port.json'' then Decoded (PDict [(''port'', PInt 9000)])
      else if path = ''datadir.json'' then
        Decoded (PDict [(''data_directory'', PStr ''/srv/flatisfy'')])
      else if path = ''paths.json'' then
        Decoded (PDict [(''database'', PStr ''postgresql://localhost/flatisfy''),
                        (''search_index'', PStr ''/srv/index'')])
      else if path = ''empty.json'' then Decoded (PDict [(''constraints'', PDict [])])
      else if path = ''null.json'' then Decoded (PDict [(''constraints'', PNone)])
      else if path = ''number.json'' then Decoded (PDict [(''data_directory'', PInt 5)])
      else if path = ''list.json'' then Decoded (PList [PInt 1])
      else if path = ''truncated.json'' then RaisesValueError
      else if path = ''deep.json'' then RaisesRecursionError
      else RaisesIOError)"

definition sample_env :: env where
  "sample_env = \<lparr>json_load = sample_files, user_data_dir = ''/home/user/.local/share/flatisfy''\<rparr>"

definition no_options :: args where
  "no_options = \<lparr>arg_config = None, arg_passes = None, arg_max_entries = None,
                  arg_port = None, arg_host = None, arg_data_dir = None\<rparr>"

section \<open>Properties\<close>

subsection \<open>Exceptions and blocks\<close>

lemma bind_res_simps [simp]:
  "bind_res (Inl e) f = Inl e"
  "bind_res (Inr x) f = f x"
  by (simp_all add: bind_res_def)

lemma bind_res_eq_Inr: "bind_res r f = Inr y \<longleftrightarrow> (\<exists>x. r = Inr x \<and> f x = Inr y)"
  by (cases r) simp_all

lemma bind_res_eq_Inl:
  "bind_res r f = Inl e \<longleftrightarrow> r = Inl e \<or> (\<exists>x. r = Inr x \<and> f x = Inl e)"
  by (cases r) simp_all

lemma run_stmts_Inr_Cons [simp]: "run_stmts (Inr u # ss) = run_stmts ss"
  by simp

lemma run_stmts_Inl_Cons [simp]: "run_stmts (Inl e # ss) = Inl e"
  by simp

lemma run_stmts_Cons_Inr:
  "run_stmts (s # ss) = Inr u \<longleftrightarrow> s = Inr () \<and> run_stmts ss = Inr ()"
  by (cases s) simp_all

lemma run_stmts_Inl: "run_stmts ss = Inl e \<Longrightarrow> Inl e \<in> set ss"
  by (induction ss) (auto split: sum.splits)

lemma py_for_Inr: "py_for xs body = Inr u \<longleftrightarrow> (\<forall>x\<in>set xs. body x = Inr ())"
  by (induction xs) (auto split: sum.splits)

lemma py_for_Inl: "py_for xs body = Inl e \<Longrightarrow> \<exists>x\<in>set xs. body x = Inl e"
  by (induction xs) (auto split: sum.splits)

lemma py_assert_simps [simp]:
  "py_assert l True = Inr ()"
  "py_assert l False = Inl (AssertionError l)"
  by (simp_all add: py_assert_def)

lemma py_assert_Inr [simp]: "py_assert l b = Inr u \<longleftrightarrow> b"
  by (simp add: py_assert_def)

lemma py_assert_Inl [simp]: "py_assert l b = Inl e \<longleftrightarrow> \<not> b \<and> e = AssertionError l"
  by (auto simp add: py_assert_def)

lemma py_getitem_Inr:
  "py_getitem l v k = Inr x \<longleftrightarrow> (\<exists>d. v = PDict d \<and> map_of d k = Some x)"
  by (cases v) (auto split: option.splits)

lemma src_line_nonempty: "src_line l \<noteq> []"
  by (cases l) simp_all

subsection \<open>The bound check\<close>

lemma bounds_wrong_length:
  assumes "py_len L79 bounds = Inr n" and "n \<noteq> 2"
  shows "check_constraints_bounds bounds = Inl (AssertionError L79)"
  using assms by (simp add: check_constraints_bounds_def)

lemma py_gt_numbers:
  assumes "ge_zero a" and "ge_zero b"
  shows "py_gt l a b = Inr (strictly_greater a b)"
  using assms by (auto simp add: ge_zero_def py_gt_def strictly_greater_def split: option.splits)

lemma bounds_pair:
  assumes "bounds = PList [lo, hi] \<or> bounds = PTuple [lo, hi]"
  shows "check_constraints_bounds bounds =
           (if \<not> ((lo = PNone \<or> non_negative_number lo) \<and> (hi = PNone \<or> non_negative_number hi))
            then Inl (AssertionError L80)
            else if lo \<noteq> PNone \<and> hi \<noteq> PNone \<and> \<not> strictly_greater hi lo
            then Inl (AssertionError L89)
            else Inr ())"
  using assms
  by (auto simp add: check_constraints_bounds_def non_negative_number_def py_gt_numbers)

lemma bounds_examples:
  "check_constraints_bounds (PTuple [PInt 5, PInt 2]) = Inl (AssertionError L89)"
  "check_constraints_bounds (PTuple [PInt 2, PInt 5]) = Inr ()"
  "check_constraints_bounds (PTuple [PNone, PNone]) = Inr ()"
  "check_constraints_bounds (PTuple [PInt (- 1), PNone]) = Inl (AssertionError L80)"
  by (simp_all add: bounds_pair non_negative_number_def strictly_greater_def ge_zero_def fl_ge_def)

lemma list_length_two: "length xs = 2 \<Longrightarrow> \<exists>a b. xs = [a, b]"
  by (cases xs; cases "tl xs") auto

lemma bounds_results:
  "check_constraints_bounds bounds \<in>
     {Inr (), Inl (AssertionError L79), Inl (AssertionError L80), Inl (AssertionError L89),
      Inl (TypeError L79)}"
proof (cases bounds)
  case (PList xs)
  show ?thesis
  proof (cases "length xs = 2")
    case True
    then obtain lo hi where "xs = [lo, hi]" using list_length_two by blast
    then show ?thesis using bounds_pair [of bounds lo hi] PList by simp
  next
    case False
    then show ?thesis using bounds_wrong_length [of bounds "length xs"] PList by simp
  qed
next
  case (PTuple xs)
  show ?thesis
  proof (cases "length xs = 2")
    case True
    then obtain lo hi where "xs = [lo, hi]" using list_length_two by blast
    then show ?thesis using bounds_pair [of bounds lo hi] PTuple by simp
  next
    case False
    then show ?thesis using bounds_wrong_length [of bounds "length xs"] PTuple by simp
  qed
next
  case (PStr s)
  show ?thesis
  proof (cases "length (code_points s) = 2")
    case True
    then obtain a b where "code_points s = [a, b]" using list_length_two by blast
    then show ?thesis using PStr by (simp add: check_constraints_bounds_def)
  next
    case False
    then show ?thesis
      using bounds_wrong_length [of bounds "length (code_points s)"] PStr by simp
  qed
next
  case (PDict d)
  show ?thesis
  proof (cases "length d = 2")
    case True
    then obtain a b where "d = [a, b]" using list_length_two by blast
    then show ?thesis using PDict by (simp add: check_constraints_bounds_def)
  next
    case False
    then show ?thesis using bounds_wrong_length [of bounds "length d"] PDict by simp
  qed
qed (simp_all add: check_constraints_bounds_def)

lemma bounds_no_TypeError_L89: "check_constraints_bounds bounds \<noteq> Inl (TypeError L89)"
  using bounds_results [of bounds] by auto

subsection \<open>Which exceptions the validator can raise\<close>

lemma Inl_eq_bind_res:
  "Inl e = bind_res r f \<longleftrightarrow> r = Inl e \<or> (\<exists>x. r = Inr x \<and> f x = Inl e)"
  by (cases r) auto

lemma no_IndexError [simp]:
  "py_getitem l v k \<noteq> Inl (IndexError l')"
  "py_contains l k v \<noteq> Inl (IndexError l')"
  "py_len l v \<noteq> Inl (IndexError l')"
  "py_iter l v \<noteq> Inl (IndexError l')"
  "py_upper l v \<noteq> Inl (IndexError l')"
  "py_items l v \<noteq> Inl (IndexError l')"
  by (cases v; simp split: option.splits)+

lemma constraint_no_IndexError [simp]:
  "constraint l config k \<noteq> Inl (IndexError l')"
  "has_constraint l config k \<noteq> Inl (IndexError l')"
  by (simp_all add: constraint_def has_constraint_def bind_res_eq_Inl)

lemma bounds_no_IndexError [simp]: "check_constraints_bounds bounds \<noteq> Inl (IndexError l)"
  using bounds_results [of bounds] by auto

lemma time_to_item_no_IndexError [simp]: "check_time_to_item p \<noteq> Inl (IndexError l)"
proof
  assume "check_time_to_item p = Inl (IndexError l)"
  then have "Inl (IndexError l) \<in> set [
       py_assert L126 (is_str (PStr (fst p))),
       bind_res (py_contains L127 ''gps'' (snd p)) (py_assert L127),
       bind_res (py_getitem L128 (snd p) ''gps'') (\<lambda>g. py_assert L128 (is_list g)),
       bind_res (py_getitem L129 (snd p) ''gps'') (\<lambda>g.
         bind_res (py_len L129 g) (\<lambda>n. py_assert L129 (n = 2))),
       bind_res (py_contains L130 ''time'' (snd p)) (py_assert L130),
       bind_res (py_getitem L131 (snd p) ''time'') check_constraints_bounds]"
    by (intro run_stmts_Inl) (simp add: check_time_to_item_def case_prod_unfold)
  then show False
    by (auto simp add: Inl_eq_bind_res bind_res_eq_Inl)
qed

lemma body_no_IndexError: "validate_config_body config \<noteq> Inl (IndexError l)"
proof
  assume "validate_config_body config = Inl (IndexError l)"
  then have "Inl (IndexError l) \<in> set (validate_config_stmts config)"
    unfolding validate_config_body_def by (rule run_stmts_Inl)
  then show False
    by (auto simp add: validate_config_stmts_def check_house_type_def unicode_name_def
          Inl_eq_bind_res bind_res_eq_Inl dest!: py_for_Inl)
qed

lemma validate_config_True_iff:
  "validate_config config = Inr (PBool True) \<longleftrightarrow> validate_config_body config = Inr ()"
  by (auto simp add: validate_config_def split: sum.splits exn.splits)

lemma run_stmts_Inr_iff: "run_stmts ss = Inr u \<longleftrightarrow> (\<forall>s\<in>set ss. s = Inr ())"
  by (induction ss) (auto split: sum.splits)

subsection \<open>Where the validator stops\<close>

text \<open>
  Line 97 either passes or ends the validation; line 98 never passes, since it reads
  the name \<open>unicode\<close>.
\<close>

lemma line_97_outcomes:
  "bind_res (has_constraint L97 config ''type'') (py_assert L97)
     \<in> {Inr (), Inl (AssertionError L97), Inl (KeyError L97), Inl (TypeError L97)}"
proof (cases config)
  case (PDict d)
  show ?thesis
  proof (cases "map_of d ''constraints''")
    case None
    then show ?thesis using PDict by (simp add: has_constraint_def)
  next
    case (Some c)
    then show ?thesis using PDict by (cases c) (simp_all add: has_constraint_def py_assert_def)
  qed
qed (simp_all add: has_constraint_def)

lemma line_98_outcomes:
  assumes "bind_res (has_constraint L97 config ''type'') (py_assert L97) = Inr ()"
  shows "bind_res (constraint L98 config ''type'') (\<lambda>t.
           bind_res (unicode_name L98) (\<lambda>_. py_assert L98 (is_str t)))
         \<in> {Inl (TypeError L98), Inl (NameError L98)}"
proof (cases config)
  case (PDict d)
  show ?thesis
  proof (cases "map_of d ''constraints''")
    case None
    then show ?thesis using PDict assms by (simp add: has_constraint_def)
  next
    case (Some c)
    show ?thesis
    proof (cases c)
      case (PDict cs)
      with Some \<open>config = PDict d\<close> assms have "''type'' \<in> fst ` set cs"
        by (simp add: has_constraint_def)
      then obtain v where "map_of cs ''type'' = Some v"
        by (cases "map_of cs ''type''") (simp_all add: map_of_eq_None_iff)
      then show ?thesis
        using PDict Some \<open>config = PDict d\<close>
        by (simp add: constraint_def unicode_name_def)
    qed (use Some \<open>config = PDict d\<close> assms in \<open>simp_all add: constraint_def has_constraint_def\<close>)
  qed
qed (use assms in \<open>simp_all add: has_constraint_def\<close>)

lemma body_outcomes:
  "validate_config_body config
     \<in> {Inl (AssertionError L97), Inl (KeyError L97), Inl (TypeError L97),
        Inl (TypeError L98), Inl (NameError L98)}"
proof -
  let ?s1 = "bind_res (has_constraint L97 config ''type'') (py_assert L97)"
  let ?s2 = "bind_res (constraint L98 config ''type'') (\<lambda>t.
           bind_res (unicode_name L98) (\<lambda>_. py_assert L98 (is_str t)))"
  obtain rest where stmts: "validate_config_stmts config = ?s1 # ?s2 # rest"
    by (simp add: validate_config_stmts_def)
  show ?thesis
  proof (cases "?s1 = Inr ()")
    case True
    from line_98_outcomes [OF True] show ?thesis
      by (auto simp add: validate_config_body_def stmts True)
  next
    case False
    with line_97_outcomes [of config] show ?thesis
      by (auto simp add: validate_config_body_def stmts)
  qed
qed

lemma validate_config_outcomes:
  "validate_config config
     \<in> {Inr (PStr (src_line L97)), Inl (TypeError L97), Inl (TypeError L98), Inl (NameError L98)}"
  using body_outcomes [of config] by (auto simp add: validate_config_def)

lemma validate_config_not_True: "validate_config config \<noteq> Inr (PBool True)"
  using validate_config_outcomes [of config] by auto

subsection \<open>The baseline configuration\<close>

lemma default_config_body:
  "validate_config_body (PDict DEFAULT_CONFIG) = Inl (NameError L98)"
  by (simp add: validate_config_body_def validate_config_stmts_def DEFAULT_CONFIG_def
        constraint_def has_constraint_def unicode_name_def)

text \<open>
  C1 (as the claim states it, refuted): the baseline configuration, handed unmodified to
  \<open>validate_config\<close>, does not yield \<open>True\<close>.
\<close>

theorem default_config_not_valid:
  "validate_config (PDict DEFAULT_CONFIG) \<noteq> Inr (PBool True)"
  by (simp add: validate_config_def default_config_body)

text \<open>
  C1 (amended): the baseline configuration, handed unmodified to \<open>validate_config\<close>,
  does not yield \<open>True\<close>. It is a template: its \<open>house_types\<close> and \<open>postal_codes\<close>
  are empty and its \<open>search_index\<close> is \<open>None\<close>, and on it the statements of lines
  103, 109 and 137 raise their AssertionError.
\<close>

theorem default_config_rejected:
  "validate_config (PDict DEFAULT_CONFIG) \<noteq> Inr (PBool True)
   \<and> Inl (AssertionError L103) \<in> set (validate_config_stmts (PDict DEFAULT_CONFIG))
   \<and> Inl (AssertionError L109) \<in> set (validate_config_stmts (PDict DEFAULT_CONFIG))
   \<and> Inl (AssertionError L137) \<in> set (validate_config_stmts (PDict DEFAULT_CONFIG))"
proof -
  have "validate_config (PDict DEFAULT_CONFIG) \<noteq> Inr (PBool True)"
    by (rule validate_config_not_True)
  moreover have "bind_res (constraint L103 (PDict DEFAULT_CONFIG) ''house_types'')
      (\<lambda>hs. py_assert L103 (truthy hs)) = Inl (AssertionError L103)"
    by (simp add: DEFAULT_CONFIG_def constraint_def)
  then have "Inl (AssertionError L103) \<in> set (validate_config_stmts (PDict DEFAULT_CONFIG))"
    by (simp add: validate_config_stmts_def)
  moreover have "bind_res (constraint L109 (PDict DEFAULT_CONFIG) ''postal_codes'')
      (\<lambda>ps. py_assert L109 (truthy ps)) = Inl (AssertionError L109)"
    by (simp add: DEFAULT_CONFIG_def constraint_def)
  then have "Inl (AssertionError L109) \<in> set (validate_config_stmts (PDict DEFAULT_CONFIG))"
    by (simp add: validate_config_stmts_def)
  moreover have "bind_res (py_getitem L137 (PDict DEFAULT_CONFIG) ''search_index'')
      (\<lambda>s. py_assert L137 (is_str s)) = Inl (AssertionError L137)"
    by (simp add: DEFAULT_CONFIG_def)
  then have "Inl (AssertionError L137) \<in> set (validate_config_stmts (PDict DEFAULT_CONFIG))"
    by (simp add: validate_config_stmts_def)
  ultimately show ?thesis by blast
qed

subsection \<open>What validate_config returns and what it lets through\<close>

text \<open>
  C2: \<open>validate_config\<close> raises on inputs that the claim says it reports. A
  configuration whose \<open>constraints\<close> is \<open>None\<close> makes \<open>"type" in config["constraints"]\<close>
  raise a TypeError at line 97, which \<open>except (AssertionError, KeyError)\<close> does not
  catch; and the baseline itself, like every configuration that passes line 97 with a
  dictionary of constraints, raises the NameError of line 98.
\<close>

theorem validate_config_raises:
  "validate_config (PDict [(''constraints'', PNone)]) = Inl (TypeError L97)
   \<and> validate_config (PDict DEFAULT_CONFIG) = Inl (NameError L98)"
  by (simp add: validate_config_def validate_config_body_def validate_config_stmts_def
        DEFAULT_CONFIG_def constraint_def has_constraint_def unicode_name_def)

text \<open>
  C9: \<open>validate_config\<close> never returns \<open>False\<close>. Whatever it returns is truthy; when
  it is not \<open>True\<close> it is the text of the line at which the AssertionError or KeyError
  that ended the validation was raised. So only the comparison with the object \<open>True\<close>
  tells success from failure.
\<close>

theorem validate_config_never_False:
  assumes "validate_config config = Inr v"
  shows "v \<noteq> PBool False \<and> truthy v
         \<and> (v = PBool True
            \<or> (\<exists>l. (validate_config_body config = Inl (AssertionError l)
                     \<or> validate_config_body config = Inl (KeyError l))
                    \<and> v = PStr (src_line l)))"
  using assms
  by (auto simp add: validate_config_def src_line_nonempty split: sum.splits exn.splits)

theorem validate_config_never_False_witness:
  \<open>validate_config (PDict []) = Inr (PStr ''assert "type" in config["constraints"]'')
   \<and> validate_config_body (PDict []) = Inl (KeyError L97)
   \<and> validate_config (PDict [(''constraints'', PDict [])])
        = Inr (PStr ''assert "type" in config["constraints"]'')
   \<and> validate_config_body (PDict [(''constraints'', PDict [])]) = Inl (AssertionError L97)
   \<and> PStr ''assert "type" in config["constraints"]'' \<noteq> PBool False
   \<and> truthy (PStr ''assert "type" in config["constraints"]'')\<close>
proof -
  have b1: "validate_config_body (PDict []) = Inl (KeyError L97)"
    by (simp add: validate_config_body_def validate_config_stmts_def has_constraint_def)
  have b2: "validate_config_body (PDict [(''constraints'', PDict [])]) = Inl (AssertionError L97)"
    by (simp add: validate_config_body_def validate_config_stmts_def has_constraint_def)
  have h1: \<open>validate_config (PDict []) = Inr (PStr ''assert "type" in config["constraints"]'')\<close>
    by (simp add: validate_config_def b1)
  have h2: \<open>validate_config (PDict [(''constraints'', PDict [])])
        = Inr (PStr ''assert "type" in config["constraints"]'')\<close>
    by (simp add: validate_config_def b2)
  show ?thesis
    using validate_config_never_False [OF h1] validate_config_never_False [OF h2] h1 h2 b1 b2
    by simp
qed

subsection \<open>The bound check inside validate_config\<close>

lemma constraint_dict:
  assumes "map_of d ''constraints'' = Some (PDict cs)"
  shows "constraint l (PDict d) k = (case map_of cs k of Some v \<Rightarrow> Inr v | None \<Rightarrow> Inl (KeyError l))"
    and "has_constraint l (PDict d) k = Inr (k \<in> fst ` set cs)"
  using assms by (simp_all add: constraint_def has_constraint_def)

lemma time_to_item_Inr:
  assumes "check_time_to_item (name, item) = Inr ()"
  shows "\<exists>it t. item = PDict it \<and> map_of it ''time'' = Some t
           \<and> check_constraints_bounds t = Inr ()"
proof -
  have "bind_res (py_getitem L131 item ''time'') check_constraints_bounds = Inr ()"
    using assms by (simp add: check_time_to_item_def run_stmts_Inr_iff del: run_stmts.simps)
  then show ?thesis
    by (auto simp add: bind_res_eq_Inr py_getitem_Inr)
qed

text \<open>
  C5: the bound check \<open>_check_constraints_bounds\<close>. It fails (AssertionError, which
  \<open>validate_config\<close> turns into a failure) on every sized object whose length is not 2;
  on a pair it fails when an element that is not \<open>None\<close> is not a non-negative number,
  and when both elements are present and the second is not strictly greater than the
  first; it succeeds on every other pair. So \<open>(5, 2)\<close> and \<open>(-1, None)\<close> fail,
  \<open>(2, 5)\<close> and \<open>(None, None)\<close> succeed. The statements of \<open>validate_config\<close> apply
  this check to \<open>area\<close>, \<open>cost\<close>, \<open>rooms\<close> and \<open>bedrooms\<close>, and the body of the loop
  over \<open>time_to\<close> applies it to the \<open>time\<close> of the entry.
\<close>

theorem bound_check_contract:
  "(py_len L79 bounds = Inr n \<and> n \<noteq> 2 \<longrightarrow>
      check_constraints_bounds bounds = Inl (AssertionError L79))
   \<and> (bounds = PList [lo, hi] \<or> bounds = PTuple [lo, hi] \<longrightarrow>
        ((lo \<noteq> PNone \<and> \<not> non_negative_number lo) \<or> (hi \<noteq> PNone \<and> \<not> non_negative_number hi) \<longrightarrow>
           check_constraints_bounds bounds = Inl (AssertionError L80))
      \<and> (lo \<noteq> PNone \<and> hi \<noteq> PNone \<and> \<not> strictly_greater hi lo \<longrightarrow>
           (\<exists>l. check_constraints_bounds bounds = Inl (AssertionError l)))
      \<and> (non_negative_number lo \<and> non_negative_number hi \<and> \<not> strictly_greater hi lo \<longrightarrow>
           check_constraints_bounds bounds = Inl (AssertionError L89))
      \<and> ((lo = PNone \<or> non_negative_number lo) \<and> (hi = PNone \<or> non_negative_number hi)
           \<and> (lo = PNone \<or> hi = PNone \<or> strictly_greater hi lo) \<longrightarrow>
           check_constraints_bounds bounds = Inr ()))
   \<and> check_constraints_bounds (PTuple [PInt 5, PInt 2]) = Inl (AssertionError L89)
   \<and> check_constraints_bounds (PTuple [PInt 2, PInt 5]) = Inr ()
   \<and> check_constraints_bounds (PTuple [PNone, PNone]) = Inr ()
   \<and> check_constraints_bounds (PTuple [PInt (- 1), PNone]) = Inl (AssertionError L80)
   \<and> (config = PDict d \<and> map_of d ''constraints'' = Some (PDict cs)
        \<and> (k = ''area'' \<or> k = ''cost'' \<or> k = ''rooms'' \<or> k = ''bedrooms'')
        \<and> map_of cs k = Some b \<longrightarrow>
        check_constraints_bounds b \<in> set (validate_config_stmts config))
   \<and> (check_time_to_item (name, item) = Inr () \<longrightarrow>
        (\<exists>it t. item = PDict it \<and> map_of it ''time'' = Some t
           \<and> check_constraints_bounds t = Inr ()))"
proof -
  have len: "py_len L79 bounds = Inr n \<and> n \<noteq> 2 \<longrightarrow>
      check_constraints_bounds bounds = Inl (AssertionError L79)"
    using bounds_wrong_length by blast
  have pair: "bounds = PList [lo, hi] \<or> bounds = PTuple [lo, hi] \<longrightarrow>
        ((lo \<noteq> PNone \<and> \<not> non_negative_number lo) \<or> (hi \<noteq> PNone \<and> \<not> non_negative_number hi) \<longrightarrow>
           check_constraints_bounds bounds = Inl (AssertionError L80))
      \<and> (lo \<noteq> PNone \<and> hi \<noteq> PNone \<and> \<not> strictly_greater hi lo \<longrightarrow>
           (\<exists>l. check_constraints_bounds bounds = Inl (AssertionError l)))
      \<and> (non_negative_number lo \<and> non_negative_number hi \<and> \<not> strictly_greater hi lo \<longrightarrow>
           check_constraints_bounds bounds = Inl (AssertionError L89))
      \<and> ((lo = PNone \<or> non_negative_number lo) \<and> (hi = PNone \<or> non_negative_number hi)
           \<and> (lo = PNone \<or> hi = PNone \<or> strictly_greater hi lo) \<longrightarrow>
           check_constraints_bounds bounds = Inr ())"
  proof
    assume b: "bounds = PList [lo, hi] \<or> bounds = PTuple [lo, hi]"
    show "((lo \<noteq> PNone \<and> \<not> non_negative_number lo) \<or> (hi \<noteq> PNone \<and> \<not> non_negative_number hi) \<longrightarrow>
           check_constraints_bounds bounds = Inl (AssertionError L80))
      \<and> (lo \<noteq> PNone \<and> hi \<noteq> PNone \<and> \<not> strictly_greater hi lo \<longrightarrow>
           (\<exists>l. check_constraints_bounds bounds = Inl (AssertionError l)))
      \<and> (non_negative_number lo \<and> non_negative_number hi \<and> \<not> strictly_greater hi lo \<longrightarrow>
           check_constraints_bounds bounds = Inl (AssertionError L89))
      \<and> ((lo = PNone \<or> non_negative_number lo) \<and> (hi = PNone \<or> non_negative_number hi)
           \<and> (lo = PNone \<or> hi = PNone \<or> strictly_greater hi lo) \<longrightarrow>
           check_constraints_bounds bounds = Inr ())"
      unfolding bounds_pair [OF b] by (auto simp add: non_negative_number_def)
  qed
  have applied: "config = PDict d \<and> map_of d ''constraints'' = Some (PDict cs)
        \<and> (k = ''area'' \<or> k = ''cost'' \<or> k = ''rooms'' \<or> k = ''bedrooms'')
        \<and> map_of cs k = Some b \<longrightarrow>
        check_constraints_bounds b \<in> set (validate_config_stmts config)"
  proof
    assume h: "config = PDict d \<and> map_of d ''constraints'' = Some (PDict cs)
        \<and> (k = ''area'' \<or> k = ''cost'' \<or> k = ''rooms'' \<or> k = ''bedrooms'')
        \<and> map_of cs k = Some b"
    then have cs: "map_of d ''constraints'' = Some (PDict cs)" and b: "map_of cs k = Some b"
      and c: "config = PDict d"
      by simp_all
    have val: "bind_res (constraint l (PDict d) k) check_constraints_bounds
                 = check_constraints_bounds b" for l
      by (simp add: constraint_dict(1) [OF cs] b)
    have "bind_res (constraint L112 config ''area'') check_constraints_bounds
            \<in> set (validate_config_stmts config)"
      "bind_res (constraint L115 config ''cost'') check_constraints_bounds
            \<in> set (validate_config_stmts config)"
      "bind_res (constraint L118 config ''rooms'') check_constraints_bounds
            \<in> set (validate_config_stmts config)"
      "bind_res (constraint L121 config ''bedrooms'') check_constraints_bounds
            \<in> set (validate_config_stmts config)"
      by (simp_all add: validate_config_stmts_def)
    with h show "check_constraints_bounds b \<in> set (validate_config_stmts config)"
      using val c by metis
  qed
  have item: "check_time_to_item (name, item) = Inr () \<longrightarrow>
        (\<exists>it t. item = PDict it \<and> map_of it ''time'' = Some t
           \<and> check_constraints_bounds t = Inr ())"
    using time_to_item_Inr by blast
  from len pair applied item bounds_examples show ?thesis by blast
qed

theorem bound_check_contract_witness:
  "check_constraints_bounds (PList [PInt 1]) = Inl (AssertionError L79)
   \<and> check_constraints_bounds (PList [PStr ''a'', PNone]) = Inl (AssertionError L80)
   \<and> check_constraints_bounds (PList [PInt 4, PInt 4]) = Inl (AssertionError L89)
   \<and> check_constraints_bounds (PList [PInt 30, PNone]) = Inr ()
   \<and> check_constraints_bounds (PList [PInt 2, PInt 4]) \<in> set (validate_config_stmts sample_config)
   \<and> check_constraints_bounds (PList [PNone, PInt 1800]) = Inr ()"
proof -
  have a: "check_constraints_bounds (PList [PInt 1]) = Inl (AssertionError L79)"
    using bound_check_contract [of "PList [PInt 1]" 1] by simp
  have b: "check_constraints_bounds (PList [PStr ''a'', PNone]) = Inl (AssertionError L80)"
    using bound_check_contract [of "PList [PStr ''a'', PNone]" 2 "PStr ''a''" PNone]
    by (simp add: non_negative_number_def)
  have c: "check_constraints_bounds (PList [PInt 4, PInt 4]) = Inl (AssertionError L89)"
    using bound_check_contract [of "PList [PInt 4, PInt 4]" 2 "PInt 4" "PInt 4"]
    by (simp add: non_negative_number_def strictly_greater_def ge_zero_def fl_ge_def)
  have d: "check_constraints_bounds (PList [PInt 30, PNone]) = Inr ()"
    using bound_check_contract [of "PList [PInt 30, PNone]" 2 "PInt 30" PNone]
    by (simp add: non_negative_number_def ge_zero_def fl_ge_def)
  let ?d = "dict_set ''search_index'' (PStr ''/srv/index'')
             (dict_set ''constraints'' sample_constraints DEFAULT_CONFIG)"
  let ?cs = "[
     (''type'', PStr ''rent''),
     (''house_types'', PList [PStr ''apart'']),
     (''postal_codes'', PList [PStr ''75010'']),
     (''area'', PList [PInt 30, PNone]),
     (''cost'', PList [PNone, PInt 1500]),
     (''rooms'', PList [PInt 2, PInt 4]),
     (''bedrooms'', PList [PNone, PNone]),
     (''time_to'', PDict [
        (''work'', PDict [
           (''gps'', PList [PFloat (Finite (977 / 20)), PFloat (Finite (47 / 20))]),
           (''time'', PList [PNone, PInt 1800])])])]"
  have s: "sample_config = PDict ?d \<and> map_of ?d ''constraints'' = Some (PDict ?cs)
      \<and> map_of ?cs ''rooms'' = Some (PList [PInt 2, PInt 4])"
    by (simp add: sample_config_def sample_constraints_def DEFAULT_CONFIG_def)
  have f: "check_constraints_bounds (PList [PInt 2, PInt 4]) \<in> set (validate_config_stmts sample_config)"
    using bound_check_contract [of PNone 0 PNone PNone sample_config ?d ?cs "''rooms''"
        "PList [PInt 2, PInt 4]"] s
    by blast
  let ?item = "PDict [
           (''gps'', PList [PFloat (Finite (977 / 20)), PFloat (Finite (47 / 20))]),
           (''time'', PList [PNone, PInt 1800])]"
  have "check_time_to_item (''work'', ?item) = Inr ()"
    by code_simp
  then have "\<exists>it t. ?item = PDict it \<and> map_of it ''time'' = Some t
           \<and> check_constraints_bounds t = Inr ()"
    using bound_check_contract [of PNone 0 PNone PNone PNone "[]" "[]" "[]" PNone "''work''" ?item]
    by blast
  then have g: "check_constraints_bounds (PList [PNone, PInt 1800]) = Inr ()"
    by auto
  from a b c d f g show ?thesis by simp
qed

subsection \<open>House types\<close>

lemma upper_examples:
  "upper ''apart'' = ''APART''" "upper ''APART'' = ''APART''" "upper ''castle'' = ''CASTLE''"
  by code_simp+

text \<open>
  C6: the check of \<open>house_types\<close> compares the upper-cased text with the six names, so
  \<open>apart\<close> and \<open>APART\<close> pass line 105 and \<open>castle\<close> raises its AssertionError. But a
  configuration that is valid in every respect, with \<open>house_types\<close> \<open>["apart"]\<close>, does
  not validate: \<open>validate_config\<close> raises the NameError of line 98 before it reaches
  the house types.
\<close>

theorem house_types_never_reached:
  "validate_config sample_config = Inl (NameError L98)
   \<and> check_house_type (PStr ''apart'') = Inr ()
   \<and> check_house_type (PStr ''APART'') = Inr ()
   \<and> check_house_type (PStr ''castle'') = Inl (AssertionError L105)"
proof -
  have "validate_config_body sample_config = Inl (NameError L98)"
    by (simp add: validate_config_body_def validate_config_stmts_def sample_config_def
          sample_constraints_def DEFAULT_CONFIG_def constraint_def has_constraint_def
          unicode_name_def)
  then have "validate_config sample_config = Inl (NameError L98)"
    by (simp add: validate_config_def)
  then show ?thesis
    by (simp add: check_house_type_def upper_examples)
qed

lemma long_s_house_type:
  "check_house_type (PStr [CHR ''h'', CHR ''o'', CHR ''u'', CHR 0xC5, CHR 0xBF, CHR ''e'']) = Inr ()"
  by code_simp

subsection \<open>Dictionaries\<close>

lemma map_of_dict_set: "map_of (dict_set k v d) = (map_of d)(k \<mapsto> v)"
  by (induction d) (auto simp add: fun_eq_iff)

lemma keys_dict_set: "fst ` set (dict_set k v d) = insert k (fst ` set d)"
  by (simp add: dom_map_of_conv_image_fst [symmetric] map_of_dict_set)

lemma map_of_dict_update:
  assumes "distinct (map fst other)"
  shows "map_of (dict_update d other) k =
           (case map_of other k of Some v \<Rightarrow> Some v | None \<Rightarrow> map_of d k)"
  using assms unfolding dict_update_def
proof (induction other arbitrary: d)
  case Nil
  then show ?case by simp
next
  case (Cons p other)
  then have "map_of other (fst p) = None"
    by (simp add: map_of_eq_None_iff)
  with Cons show ?case
    by (cases p) (auto simp add: map_of_dict_set split: option.splits)
qed

lemma keys_dict_update: "fst ` set d \<subseteq> fst ` set (dict_update d other)"
  unfolding dict_update_def
proof (induction other arbitrary: d)
  case Nil
  then show ?case by simp
next
  case (Cons p other)
  have "fst ` set d \<subseteq> fst ` set (dict_set (fst p) (snd p) d)"
    by (auto simp add: keys_dict_set)
  also have "\<dots> \<subseteq> fst ` set (fold (\<lambda>kv. dict_set (fst kv) (snd kv)) other (dict_set (fst p) (snd p) d))"
    by (rule Cons.IH)
  finally show ?case by simp
qed

lemma map_of_dict_update_unbound:
  assumes "map_of other k = None"
  shows "map_of (dict_update d other) k = map_of d k"
  using assms unfolding dict_update_def
  by (induction other arbitrary: d) (auto simp add: map_of_dict_set split: if_splits)

lemma keys_update_from_seq: "fst ` set d \<subseteq> fst ` set (fst (update_from_seq l xs d))"
proof (induction xs arbitrary: d)
  case Nil
  then show ?case by simp
next
  case (Cons x xs)
  show ?case
  proof (cases "pair_of l x")
    case (Inl err)
    then show ?thesis by simp
  next
    case (Inr kv)
    obtain k v where kv: "kv = (k, v)" by (cases kv)
    show ?thesis
    proof (cases "hashable k")
      case False
      then show ?thesis using Inr kv by simp
    next
      case True
      let ?d = "case k of PStr key \<Rightarrow> dict_set key v d | _ \<Rightarrow> d"
      have "fst ` set d \<subseteq> fst ` set ?d"
        by (cases k) (auto simp add: keys_dict_set)
      also have "\<dots> \<subseteq> fst ` set (fst (update_from_seq l xs ?d))"
        by (rule Cons.IH)
      finally show ?thesis using Inr kv True by simp
    qed
  qed
qed

lemma keys_py_dict_update: "fst ` set d \<subseteq> fst ` set (fst (py_dict_update l d content))"
  by (cases content) (simp_all add: keys_update_from_seq keys_dict_update)

subsection \<open>The layers of load_config\<close>

lemma load_json_file_plain:
  assumes "file_plain e a"
  shows "load_json_file e a c =
           Inr (case file_read e a of Some (Decoded (PDict obj)) \<Rightarrow> dict_update c obj | _ \<Rightarrow> c)"
  using assms
  by (simp add: load_json_file_def file_plain_def file_read_def given_def
        split: option.splits file_outcome.splits pyval.splits if_splits)

lemma map_of_load_json_file:
  assumes "file_plain e a" and "load_json_file e a c = Inr c'"
  shows "map_of c' k = (case file_value e a k of Some v \<Rightarrow> Some v | None \<Rightarrow> map_of c k)"
proof -
  have c': "c' = (case file_read e a of Some (Decoded (PDict obj)) \<Rightarrow> dict_update c obj | _ \<Rightarrow> c)"
    using assms by (simp add: load_json_file_plain)
  show ?thesis
  proof (cases "\<exists>obj. file_read e a = Some (Decoded (PDict obj))")
    case True
    then obtain obj where obj: "file_read e a = Some (Decoded (PDict obj))" by blast
    with assms(1) have "distinct (map fst obj)" by (simp add: file_plain_def)
    then show ?thesis
      by (simp add: c' obj file_value_def map_of_dict_update)
  next
    case False
    then have "c' = c" and "file_value e a k = None"
      by (auto simp add: c' file_value_def split: option.splits file_outcome.splits pyval.splits)
    then show ?thesis by simp
  qed
qed

lemma keys_load_json_file:
  assumes "load_json_file e a c = Inr c'"
  shows "fst ` set c \<subseteq> fst ` set c'"
proof (cases "\<exists>content. file_read e a = Some (Decoded content)")
  case True
  then obtain content where r: "file_read e a = Some (Decoded content)" by blast
  then have "c' = fst (py_dict_update L169 c content)"
    using assms
    by (auto simp add: load_json_file_def file_read_def given_def
          split: option.splits if_splits prod.splits exn.splits)
  then show ?thesis by (simp add: keys_py_dict_update)
next
  case False
  then have "c' = c"
    using assms
    by (auto simp add: load_json_file_def file_read_def given_def
          split: option.splits if_splits file_outcome.splits)
  then show ?thesis by simp
qed

lemma map_of_overload_with_args:
  "map_of (overload_with_args a c) k =
     (if k = ''host'' \<and> given a arg_host \<noteq> None then map_option PStr (given a arg_host)
      else if k = ''port'' \<and> given a arg_port \<noteq> None then map_option PInt (given a arg_port)
      else if k = ''max_entries'' \<and> given a arg_max_entries \<noteq> None
        then map_option PInt (given a arg_max_entries)
      else if k = ''passes'' \<and> given a arg_passes \<noteq> None then map_option PInt (given a arg_passes)
      else map_of c k)"
  by (auto simp add: overload_with_args_def Let_def map_of_dict_set split: option.splits)

lemma keys_overload_with_args: "fst ` set c \<subseteq> fst ` set (overload_with_args a c)"
  by (auto simp add: overload_with_args_def Let_def keys_dict_set split: option.splits)

lemma default_keys:
  "''data_directory'' \<in> fst ` set DEFAULT_CONFIG"
  "''database'' \<in> fst ` set DEFAULT_CONFIG"
  "''search_index'' \<in> fst ` set DEFAULT_CONFIG"
  by (simp_all add: DEFAULT_CONFIG_def)

lemma default_values:
  "map_of DEFAULT_CONFIG ''port'' = Some (PInt 8080)"
  "map_of DEFAULT_CONFIG ''data_directory'' = Some PNone"
  "map_of DEFAULT_CONFIG ''database'' = Some PNone"
  "map_of DEFAULT_CONFIG ''search_index'' = Some PNone"
  by (simp_all add: DEFAULT_CONFIG_def)

lemma merged_config_Inr:
  "merged_config e a = Inr m \<longleftrightarrow>
     (\<exists>c. load_json_file e a DEFAULT_CONFIG = Inr c \<and> m = overload_with_args a c)"
  by (auto simp add: merged_config_def bind_res_eq_Inr)

lemma merged_keys:
  assumes "merged_config e a = Inr m"
  shows "''data_directory'' \<in> fst ` set m"
    and "''database'' \<in> fst ` set m"
    and "''search_index'' \<in> fst ` set m"
proof -
  from assms obtain c where c: "load_json_file e a DEFAULT_CONFIG = Inr c"
    and m: "m = overload_with_args a c"
    by (auto simp add: merged_config_Inr)
  have sub: "fst ` set DEFAULT_CONFIG \<subseteq> fst ` set m"
    unfolding m
    by (rule subset_trans [OF keys_load_json_file [OF c] keys_overload_with_args])
  show "''data_directory'' \<in> fst ` set m" "''database'' \<in> fst ` set m"
    "''search_index'' \<in> fst ` set m"
    by (rule subsetD [OF sub default_keys(1)], rule subsetD [OF sub default_keys(2)],
        rule subsetD [OF sub default_keys(3)])
qed

lemma map_of_merged_config:
  assumes "file_plain e a" and "merged_config e a = Inr m"
  shows "map_of m k =
     (if k = ''host'' \<and> given a arg_host \<noteq> None then map_option PStr (given a arg_host)
      else if k = ''port'' \<and> given a arg_port \<noteq> None then map_option PInt (given a arg_port)
      else if k = ''max_entries'' \<and> given a arg_max_entries \<noteq> None
        then map_option PInt (given a arg_max_entries)
      else if k = ''passes'' \<and> given a arg_passes \<noteq> None then map_option PInt (given a arg_passes)
      else (case file_value e a k of Some v \<Rightarrow> Some v | None \<Rightarrow> map_of DEFAULT_CONFIG k))"
proof -
  from assms(2) obtain c where c: "load_json_file e a DEFAULT_CONFIG = Inr c"
    and m: "m = overload_with_args a c"
    by (auto simp add: merged_config_Inr)
  show ?thesis
    unfolding m map_of_overload_with_args map_of_load_json_file [OF assms(1) c] ..
qed

lemma merged_config_plain:
  assumes "file_plain e a"
  shows "\<exists>m. merged_config e a = Inr m"
  by (simp add: merged_config_def load_json_file_plain [OF assms])

lemma py_getitem_dict:
  "py_getitem l (PDict d) k = (case map_of d k of Some v \<Rightarrow> Inr v | None \<Rightarrow> Inl (KeyError l))"
  by simp

lemma map_of_handle_data_directory:
  assumes "handle_data_directory e a c = Inr c'"
  shows "map_of c' k =
           (if k = ''data_directory'' then
              (case given a arg_data_dir of
                 Some d \<Rightarrow> Some (PStr d)
               | None \<Rightarrow> if map_of c ''data_directory'' = Some PNone
                          then Some (PStr (user_data_dir e)) else map_of c ''data_directory'')
            else map_of c k)"
  using assms
  by (auto simp add: handle_data_directory_def bind_res_eq_Inr map_of_dict_set
        split: option.splits if_splits)

lemma handle_data_directory_total:
  assumes "''data_directory'' \<in> fst ` set c"
  shows "\<exists>c'. handle_data_directory e a c = Inr c' \<and> fst ` set c \<subseteq> fst ` set c'"
proof -
  from assms obtain v where "map_of c ''data_directory'' = Some v"
    by (metis map_of_eq_None_iff not_Some_eq)
  then show ?thesis
    by (auto simp add: handle_data_directory_def keys_dict_set split: option.splits)
qed

lemma map_of_default_database:
  assumes "default_database c = Inr c'"
  shows "map_of c' k =
           (if k = ''database'' \<and> map_of c ''database'' = Some PNone then
              (case map_of c ''data_directory'' of
                 Some (PStr d) \<Rightarrow> Some (PStr (''sqlite:///'' @ path_join d ''flatisfy.db''))
               | _ \<Rightarrow> None)
            else map_of c k)"
proof -
  have join: "os_path_join l v b = Inr p \<longleftrightarrow> (\<exists>s. v = PStr s \<and> p = path_join s b)" for l v b p
    by (cases v) auto
  show ?thesis
    using assms
    by (auto simp add: default_database_def bind_res_eq_Inr map_of_dict_set join
          split: option.splits if_splits)
qed

lemma map_of_default_search_index:
  assumes "default_search_index c = Inr c'"
  shows "map_of c' k =
           (if k = ''search_index'' \<and> map_of c ''search_index'' = Some PNone then
              (case map_of c ''data_directory'' of
                 Some (PStr d) \<Rightarrow> Some (PStr (path_join d ''search_index''))
               | _ \<Rightarrow> None)
            else map_of c k)"
proof -
  have join: "os_path_join l v b = Inr p \<longleftrightarrow> (\<exists>s. v = PStr s \<and> p = path_join s b)" for l v b p
    by (cases v) auto
  show ?thesis
    using assms
    by (auto simp add: default_search_index_def bind_res_eq_Inr map_of_dict_set join
          split: option.splits if_splits)
qed

lemma resolved_config_Inr:
  "resolved_config e a = Inr c \<longleftrightarrow>
     (\<exists>m c1 c2. merged_config e a = Inr m \<and> handle_data_directory e a m = Inr c1
        \<and> default_database c1 = Inr c2 \<and> default_search_index c2 = Inr c)"
  by (auto simp add: resolved_config_def bind_res_eq_Inr)

lemma map_of_resolved_other:
  assumes "resolved_config e a = Inr c" and "merged_config e a = Inr m"
    and "k \<noteq> ''data_directory''" and "k \<noteq> ''database''" and "k \<noteq> ''search_index''"
  shows "map_of c k = map_of m k"
proof -
  from assms(1,2) obtain c1 c2 where
    "handle_data_directory e a m = Inr c1"
    "default_database c1 = Inr c2" "default_search_index c2 = Inr c"
    by (auto simp add: resolved_config_Inr)
  then show ?thesis
    using assms(3-5)
    by (simp add: map_of_handle_data_directory map_of_default_database
          map_of_default_search_index)
qed

text \<open>
  C3: precedence of the layers for \<open>port\<close>. In the configuration that \<open>load_config\<close>
  resolves, the port is the value of the command line when one is given, whatever the
  file holds; else the value of the file when the file sets one; else the 8080 of the
  baseline.
\<close>

theorem port_precedence:
  assumes "resolved_config e a = Inr c"
  shows "map_of DEFAULT_CONFIG ''port'' = Some (PInt 8080)
       \<and> (given a arg_port = Some p \<longrightarrow> map_of c ''port'' = Some (PInt p))
       \<and> (given a arg_port = None \<and> file_plain e a \<and> file_value e a ''port'' = Some v \<longrightarrow>
            map_of c ''port'' = Some v)
       \<and> (given a arg_port = None \<and> file_plain e a \<and> file_value e a ''port'' = None \<longrightarrow>
            map_of c ''port'' = Some (PInt 8080))"
proof -
  from assms obtain m where m: "merged_config e a = Inr m"
    by (auto simp add: resolved_config_Inr)
  have port: "map_of c ''port'' = map_of m ''port''"
    by (rule map_of_resolved_other [OF assms m]) simp_all
  have cli: "map_of c ''port'' = Some (PInt p)" if "given a arg_port = Some p"
  proof -
    from m obtain c0 where "m = overload_with_args a c0"
      by (auto simp add: merged_config_Inr)
    then show ?thesis
      using that by (simp add: port map_of_overload_with_args)
  qed
  have from_file: "map_of c ''port'' = Some v"
    if "given a arg_port = None" "file_plain e a" "file_value e a ''port'' = Some v"
    using that by (simp add: port map_of_merged_config [OF that(2) m])
  have base: "map_of c ''port'' = Some (PInt 8080)"
    if "given a arg_port = None" "file_plain e a" "file_value e a ''port'' = None"
    using that by (simp add: port map_of_merged_config [OF that(2) m] default_values)
  from cli from_file base default_values(1) show ?thesis by blast
qed

lemma sample_port_facts:
  "given (Some (no_options\<lparr>arg_config := Some ''port.json'', arg_port := Some 9999\<rparr>)) arg_port
     = Some 9999"
  "given (Some (no_options\<lparr>arg_config := Some ''port.json''\<rparr>)) arg_port = None"
  "file_plain sample_env (Some (no_options\<lparr>arg_config := Some ''port.json''\<rparr>))"
  "file_value sample_env (Some (no_options\<lparr>arg_config := Some ''port.json''\<rparr>)) ''port''
     = Some (PInt 9000)"
  "given (Some no_options) arg_port = None"
  "file_plain sample_env (Some no_options)"
  "file_value sample_env (Some no_options) ''port'' = None"
  by (simp_all add: given_def no_options_def file_plain_def file_value_def file_read_def
        sample_env_def sample_files_def)

theorem port_precedence_witness:
  "resolved_field (resolved_config sample_env
      (Some (no_options\<lparr>arg_config := Some ''port.json'', arg_port := Some 9999\<rparr>))) ''port''
     = Some (PInt 9999)
   \<and> resolved_field (resolved_config sample_env
      (Some (no_options\<lparr>arg_config := Some ''port.json''\<rparr>))) ''port'' = Some (PInt 9000)
   \<and> resolved_field (resolved_config sample_env (Some no_options)) ''port'' = Some (PInt 8080)"
proof -
  let ?a1 = "Some (no_options\<lparr>arg_config := Some ''port.json'', arg_port := Some 9999\<rparr>)"
  let ?a2 = "Some (no_options\<lparr>arg_config := Some ''port.json''\<rparr>)"
  let ?a3 = "Some no_options"
  let ?c1 = "projr (resolved_config sample_env ?a1)"
  let ?c2 = "projr (resolved_config sample_env ?a2)"
  let ?c3 = "projr (resolved_config sample_env ?a3)"
  have "\<not> isl (resolved_config sample_env ?a1)" by code_simp
  then have r1: "resolved_config sample_env ?a1 = Inr ?c1" by simp
  have "\<not> isl (resolved_config sample_env ?a2)" by code_simp
  then have r2: "resolved_config sample_env ?a2 = Inr ?c2" by simp
  have "\<not> isl (resolved_config sample_env ?a3)" by code_simp
  then have r3: "resolved_config sample_env ?a3 = Inr ?c3" by simp
  have "map_of ?c1 ''port'' = Some (PInt 9999)"
    using port_precedence [OF r1, of 9999] sample_port_facts(1) by blast
  then have w1: "resolved_field (resolved_config sample_env ?a1) ''port'' = Some (PInt 9999)"
    by (subst r1) (simp add: resolved_field_def)
  have "map_of ?c2 ''port'' = Some (PInt 9000)"
    using port_precedence [OF r2, of _ "PInt 9000"] sample_port_facts(2,3,4) by blast
  then have w2: "resolved_field (resolved_config sample_env ?a2) ''port'' = Some (PInt 9000)"
    by (subst r2) (simp add: resolved_field_def)
  have "map_of ?c3 ''port'' = Some (PInt 8080)"
    using port_precedence [OF r3] sample_port_facts(5,6,7) by blast
  then have w3: "resolved_field (resolved_config sample_env ?a3) ''port'' = Some (PInt 8080)"
    by (subst r3) (simp add: resolved_field_def)
  from w1 w2 w3 show ?thesis by blast
qed

subsection \<open>Derived paths\<close>

lemma path_join_under:
  assumes "\<not> prefix ''/'' b"
  shows "prefix a (path_join a b) \<and> suffix b (path_join a b)"
proof -
  have "path_join a b = a @ b \<or> path_join a b = (a @ ''/'') @ b"
    using assms by (simp add: path_join_def)
  then show ?thesis
  proof
    assume "path_join a b = a @ b"
    then show ?thesis by (metis prefixI suffixI)
  next
    assume "path_join a b = (a @ ''/'') @ b"
    then show ?thesis by (metis append.assoc prefixI suffixI)
  qed
qed

lemma merged_path_fields:
  assumes "file_plain e a" and "merged_config e a = Inr m"
  shows "map_of m ''data_directory'' =
           (case file_value e a ''data_directory'' of Some v \<Rightarrow> Some v | None \<Rightarrow> Some PNone)"
    and "map_of m ''database'' =
           (case file_value e a ''database'' of Some v \<Rightarrow> Some v | None \<Rightarrow> Some PNone)"
    and "map_of m ''search_index'' =
           (case file_value e a ''search_index'' of Some v \<Rightarrow> Some v | None \<Rightarrow> Some PNone)"
  by (simp_all add: map_of_merged_config [OF assms] default_values split: option.splits)

lemma handle_data_directory_fields:
  assumes c1: "handle_data_directory e a m = Inr c1"
    and dd: "map_of m ''data_directory'' = Some mdd"
    and db: "map_of m ''database'' = Some mdb"
    and si: "map_of m ''search_index'' = Some msi"
    and dir: "(case given a arg_data_dir of
                 Some d \<Rightarrow> PStr d
               | None \<Rightarrow> if mdd = PNone then PStr (user_data_dir e) else mdd) = PStr d"
  shows "map_of c1 ''data_directory'' = Some (PStr d)"
    and "map_of c1 ''database'' = Some mdb"
    and "map_of c1 ''search_index'' = Some msi"
  using dir dd db si
  by (auto simp add: map_of_handle_data_directory [OF c1] split: option.splits if_splits)

lemma default_database_value:
  assumes "map_of c1 ''data_directory'' = Some (PStr d)" and "map_of c1 ''database'' = Some mdb"
  shows "default_database c1 =
           Inr (if mdb = PNone
                then dict_set ''database'' (PStr (''sqlite:///'' @ path_join d ''flatisfy.db'')) c1
                else c1)"
  using assms by (simp add: default_database_def)

lemma default_search_index_value:
  assumes "map_of c2 ''data_directory'' = Some (PStr d)" and "map_of c2 ''search_index'' = Some msi"
  shows "default_search_index c2 =
           Inr (if msi = PNone
                then dict_set ''search_index'' (PStr (path_join d ''search_index'')) c2
                else c2)"
  using assms by (simp add: default_search_index_def)

lemma resolved_config_from:
  assumes m: "merged_config e a = Inr m"
    and dd: "map_of m ''data_directory'' = Some mdd"
    and db: "map_of m ''database'' = Some mdb"
    and si: "map_of m ''search_index'' = Some msi"
    and dir: "(case given a arg_data_dir of
                 Some d \<Rightarrow> PStr d
               | None \<Rightarrow> if mdd = PNone then PStr (user_data_dir e) else mdd) = PStr d"
  shows "\<exists>c. resolved_config e a = Inr c
           \<and> map_of c ''data_directory'' = Some (PStr d)
           \<and> map_of c ''database'' =
                Some (if mdb = PNone then PStr (''sqlite:///'' @ path_join d ''flatisfy.db'') else mdb)
           \<and> map_of c ''search_index'' =
                Some (if msi = PNone then PStr (path_join d ''search_index'') else msi)"
proof -
  from handle_data_directory_total [OF merged_keys(1) [OF m], of e a]
  obtain c1 where c1: "handle_data_directory e a m = Inr c1"
    by (elim exE conjE)
  note m1 = handle_data_directory_fields [OF c1 dd db si dir]
  let ?c2 = "if mdb = PNone
      then dict_set ''database'' (PStr (''sqlite:///'' @ path_join d ''flatisfy.db'')) c1 else c1"
  have e2: "default_database c1 = Inr ?c2"
    by (rule default_database_value [OF m1(1) m1(2)])
  have m2: "map_of ?c2 ''data_directory'' = Some (PStr d)"
      "map_of ?c2 ''database'' =
         Some (if mdb = PNone then PStr (''sqlite:///'' @ path_join d ''flatisfy.db'') else mdb)"
      "map_of ?c2 ''search_index'' = Some msi"
    by (simp_all add: m1 map_of_dict_set)
  let ?c = "if msi = PNone
      then dict_set ''search_index'' (PStr (path_join d ''search_index'')) ?c2 else ?c2"
  have e3: "default_search_index ?c2 = Inr ?c"
    by (rule default_search_index_value [OF m2(1) m2(3)])
  have r: "resolved_config e a = Inr ?c"
    unfolding resolved_config_def by (simp only: m c1 e2 e3 bind_res_simps)
  show ?thesis
  proof (rule exI [of _ ?c], intro conjI)
    show "resolved_config e a = Inr ?c" by (rule r)
    show "map_of ?c ''data_directory'' = Some (PStr d)"
      by (simp add: m1 map_of_dict_set)
    show "map_of ?c ''database'' =
         Some (if mdb = PNone then PStr (''sqlite:///'' @ path_join d ''flatisfy.db'') else mdb)"
      by (simp add: m1 map_of_dict_set)
    show "map_of ?c ''search_index'' =
         Some (if msi = PNone then PStr (path_join d ''search_index'') else msi)"
      by (simp add: m1 map_of_dict_set)
  qed
qed

lemma file_unset_merged:
  assumes "file_plain e a" and "merged_config e a = Inr m"
  shows "file_unset e a ''database'' \<Longrightarrow> map_of m ''database'' = Some PNone"
    and "file_unset e a ''search_index'' \<Longrightarrow> map_of m ''search_index'' = Some PNone"
  by (auto simp add: file_unset_def merged_path_fields [OF assms])

lemma map_of_resolved_paths:
  assumes "resolved_config e a = Inr c" and "merged_config e a = Inr m"
    and "map_of m ''database'' = Some db" and "db \<noteq> PNone"
    and "map_of m ''search_index'' = Some si" and "si \<noteq> PNone"
  shows "map_of c ''database'' = Some db" and "map_of c ''search_index'' = Some si"
proof -
  from assms(1,2) obtain c1 c2 where
    c1: "handle_data_directory e a m = Inr c1"
    and c2: "default_database c1 = Inr c2" and c: "default_search_index c2 = Inr c"
    by (auto simp add: resolved_config_Inr)
  have m1: "map_of c1 ''database'' = Some db" "map_of c1 ''search_index'' = Some si"
    using assms(3,5) by (simp_all add: map_of_handle_data_directory [OF c1])
  have m2: "map_of c2 ''database'' = Some db" "map_of c2 ''search_index'' = Some si"
    using m1 assms(4) by (simp_all add: map_of_default_database [OF c2])
  show "map_of c ''database'' = Some db" "map_of c ''search_index'' = Some si"
    using m2 assms(6) by (simp_all add: map_of_default_search_index [OF c])
qed

text \<open>
  C4: derivation of the paths. When the data directory is set, by the command line or
  else by the file, and the file leaves \<open>database\<close> and \<open>search_index\<close> unset,
  \<open>load_config\<close> resolves \<open>database\<close> to \<open>sqlite:///\<close> followed by the path of
  \<open>flatisfy.db\<close> under the data directory, and \<open>search_index\<close> to the path of
  \<open>search_index\<close> under it. When the file sets both (to something else than \<open>None\<close>),
  both are left as the file has them.
\<close>

theorem paths_derived_from_data_directory:
  assumes "file_plain e a"
  shows "((given a arg_data_dir = Some d
            \<or> (given a arg_data_dir = None \<and> file_value e a ''data_directory'' = Some (PStr d)))
          \<and> file_unset e a ''database'' \<and> file_unset e a ''search_index'' \<longrightarrow>
          (\<exists>c. resolved_config e a = Inr c
             \<and> map_of c ''data_directory'' = Some (PStr d)
             \<and> map_of c ''database'' = Some (PStr (''sqlite:///'' @ path_join d ''flatisfy.db''))
             \<and> map_of c ''search_index'' = Some (PStr (path_join d ''search_index''))
             \<and> prefix d (path_join d ''flatisfy.db'')
             \<and> suffix ''flatisfy.db'' (path_join d ''flatisfy.db'')
             \<and> prefix d (path_join d ''search_index'')
             \<and> suffix ''search_index'' (path_join d ''search_index'')))
       \<and> (file_value e a ''database'' = Some db \<and> db \<noteq> PNone
           \<and> file_value e a ''search_index'' = Some si \<and> si \<noteq> PNone
           \<and> resolved_config e a = Inr c \<longrightarrow>
           map_of c ''database'' = Some db \<and> map_of c ''search_index'' = Some si)"
proof (intro conjI impI)
  from merged_config_plain [OF assms] obtain m where m: "merged_config e a = Inr m"
    by (elim exE)
  assume h: "(given a arg_data_dir = Some d
            \<or> (given a arg_data_dir = None \<and> file_value e a ''data_directory'' = Some (PStr d)))
          \<and> file_unset e a ''database'' \<and> file_unset e a ''search_index''"
  obtain mdd where mdd: "map_of m ''data_directory'' = Some mdd"
    and mdd_file: "file_value e a ''data_directory'' = Some (PStr d) \<longrightarrow> mdd = PStr d"
    by (cases "file_value e a ''data_directory''") (simp_all add: merged_path_fields [OF assms m])
  have dir: "(case given a arg_data_dir of
                 Some d \<Rightarrow> PStr d
               | None \<Rightarrow> if mdd = PNone then PStr (user_data_dir e) else mdd) = PStr d"
    using h mdd_file by auto
  from h have db: "map_of m ''database'' = Some PNone"
    and si: "map_of m ''search_index'' = Some PNone"
    by (simp_all add: file_unset_merged [OF assms m])
  from resolved_config_from [OF m mdd db si dir]
  obtain c where c: "resolved_config e a = Inr c"
    and mc: "map_of c ''data_directory'' = Some (PStr d)"
      "map_of c ''database'' = Some (PStr (''sqlite:///'' @ path_join d ''flatisfy.db''))"
      "map_of c ''search_index'' = Some (PStr (path_join d ''search_index''))"
    by auto
  have p: "prefix d (path_join d ''flatisfy.db'') \<and> suffix ''flatisfy.db'' (path_join d ''flatisfy.db'')"
    "prefix d (path_join d ''search_index'') \<and> suffix ''search_index'' (path_join d ''search_index'')"
    by (rule path_join_under, simp)+
  from c mc p show "\<exists>c. resolved_config e a = Inr c
             \<and> map_of c ''data_directory'' = Some (PStr d)
             \<and> map_of c ''database'' = Some (PStr (''sqlite:///'' @ path_join d ''flatisfy.db''))
             \<and> map_of c ''search_index'' = Some (PStr (path_join d ''search_index''))
             \<and> prefix d (path_join d ''flatisfy.db'')
             \<and> suffix ''flatisfy.db'' (path_join d ''flatisfy.db'')
             \<and> prefix d (path_join d ''search_index'')
             \<and> suffix ''search_index'' (path_join d ''search_index'')"
    by (intro exI [of _ c]) simp
next
  from merged_config_plain [OF assms] obtain m where m: "merged_config e a = Inr m"
    by (elim exE)
  assume h: "file_value e a ''database'' = Some db \<and> db \<noteq> PNone
           \<and> file_value e a ''search_index'' = Some si \<and> si \<noteq> PNone
           \<and> resolved_config e a = Inr c"
  then have r: "resolved_config e a = Inr c" by simp
  have "map_of m ''database'' = Some db" "map_of m ''search_index'' = Some si"
    using h by (simp_all add: merged_path_fields [OF assms m])
  with h show "map_of c ''database'' = Some db" "map_of c ''search_index'' = Some si"
    using map_of_resolved_paths [OF r m] by blast+
qed

lemma sample_paths:
  "path_join ''/srv/flatisfy'' ''flatisfy.db'' = ''/srv/flatisfy/flatisfy.db''"
  "path_join ''/srv/flatisfy'' ''search_index'' = ''/srv/flatisfy/search_index''"
  "path_join ''/data/'' ''flatisfy.db'' = ''/data/flatisfy.db''"
  "path_join ''/data/'' ''search_index'' = ''/data/search_index''"
  by code_simp+

lemma sample_file_facts:
  "file_plain sample_env (Some (no_options\<lparr>arg_config := Some ''datadir.json''\<rparr>))"
  "file_value sample_env (Some (no_options\<lparr>arg_config := Some ''datadir.json''\<rparr>)) ''data_directory''
     = Some (PStr ''/srv/flatisfy'')"
  "file_unset sample_env (Some (no_options\<lparr>arg_config := Some ''datadir.json''\<rparr>)) ''database''"
  "file_unset sample_env (Some (no_options\<lparr>arg_config := Some ''datadir.json''\<rparr>)) ''search_index''"
  "file_plain sample_env (Some (no_options\<lparr>arg_data_dir := Some ''/data/''\<rparr>))"
  "file_unset sample_env (Some (no_options\<lparr>arg_data_dir := Some ''/data/''\<rparr>)) ''database''"
  "file_unset sample_env (Some (no_options\<lparr>arg_data_dir := Some ''/data/''\<rparr>)) ''search_index''"
  "file_plain sample_env (Some (no_options\<lparr>arg_config := Some ''paths.json''\<rparr>))"
  "file_value sample_env (Some (no_options\<lparr>arg_config := Some ''paths.json''\<rparr>)) ''database''
     = Some (PStr ''postgresql://localhost/flatisfy'')"
  "file_value sample_env (Some (no_options\<lparr>arg_config := Some ''paths.json''\<rparr>)) ''search_index''
     = Some (PStr ''/srv/index'')"
  by (simp_all add: given_def no_options_def file_plain_def file_value_def file_unset_def
        file_read_def sample_env_def sample_files_def)

theorem paths_derived_from_data_directory_witness:
  "resolved_field (resolved_config sample_env
      (Some (no_options\<lparr>arg_config := Some ''datadir.json''\<rparr>))) ''database''
     = Some (PStr ''sqlite:////srv/flatisfy/flatisfy.db'')
   \<and> resolved_field (resolved_config sample_env
      (Some (no_options\<lparr>arg_config := Some ''datadir.json''\<rparr>))) ''search_index''
     = Some (PStr ''/srv/flatisfy/search_index'')
   \<and> resolved_field (resolved_config sample_env
      (Some (no_options\<lparr>arg_data_dir := Some ''/data/''\<rparr>))) ''database''
     = Some (PStr ''sqlite:////data/flatisfy.db'')
   \<and> resolved_field (resolved_config sample_env
      (Some (no_options\<lparr>arg_config := Some ''paths.json''\<rparr>))) ''database''
     = Some (PStr ''postgresql://localhost/flatisfy'')
   \<and> resolved_field (resolved_config sample_env
      (Some (no_options\<lparr>arg_config := Some ''paths.json''\<rparr>))) ''search_index''
     = Some (PStr ''/srv/index'')"
proof -
  let ?a1 = "Some (no_options\<lparr>arg_config := Some ''datadir.json''\<rparr>)"
  let ?a2 = "Some (no_options\<lparr>arg_data_dir := Some ''/data/''\<rparr>)"
  let ?a3 = "Some (no_options\<lparr>arg_config := Some ''paths.json''\<rparr>)"
  have g1: "given ?a1 arg_data_dir = None" and g2: "given ?a2 arg_data_dir = Some ''/data/''"
    by (simp_all add: given_def no_options_def)
  have "\<exists>c. resolved_config sample_env ?a1 = Inr c
          \<and> map_of c ''database'' = Some (PStr (''sqlite:///'' @ path_join ''/srv/flatisfy'' ''flatisfy.db''))
          \<and> map_of c ''search_index'' = Some (PStr (path_join ''/srv/flatisfy'' ''search_index''))"
    using paths_derived_from_data_directory [OF sample_file_facts(1), of "''/srv/flatisfy''"]
      g1 sample_file_facts(2,3,4)
    by blast
  then have w1: "resolved_field (resolved_config sample_env ?a1) ''database''
       = Some (PStr (''sqlite:///'' @ path_join ''/srv/flatisfy'' ''flatisfy.db''))"
     "resolved_field (resolved_config sample_env ?a1) ''search_index''
       = Some (PStr (path_join ''/srv/flatisfy'' ''search_index''))"
    by (auto simp add: resolved_field_def)
  have "\<exists>c. resolved_config sample_env ?a2 = Inr c
          \<and> map_of c ''database'' = Some (PStr (''sqlite:///'' @ path_join ''/data/'' ''flatisfy.db''))"
    using paths_derived_from_data_directory [OF sample_file_facts(5), of "''/data/''"]
      g2 sample_file_facts(6,7)
    by blast
  then have w2: "resolved_field (resolved_config sample_env ?a2) ''database''
       = Some (PStr (''sqlite:///'' @ path_join ''/data/'' ''flatisfy.db''))"
    by (auto simp add: resolved_field_def)
  have "\<not> isl (resolved_config sample_env ?a3)" by code_simp
  then have r3: "resolved_config sample_env ?a3 = Inr (projr (resolved_config sample_env ?a3))"
    by simp
  have "map_of (projr (resolved_config sample_env ?a3)) ''database''
          = Some (PStr ''postgresql://localhost/flatisfy'')
        \<and> map_of (projr (resolved_config sample_env ?a3)) ''search_index'' = Some (PStr ''/srv/index'')"
    using paths_derived_from_data_directory [OF sample_file_facts(8),
        of _ "PStr ''postgresql://localhost/flatisfy''" "PStr ''/srv/index''"
           "projr (resolved_config sample_env ?a3)"]
      sample_file_facts(9,10) r3
    by simp
  then have w3: "resolved_field (resolved_config sample_env ?a3) ''database''
       = Some (PStr ''postgresql://localhost/flatisfy'')"
    "resolved_field (resolved_config sample_env ?a3) ''search_index'' = Some (PStr ''/srv/index'')"
    by (subst r3, simp add: resolved_field_def)+
  from w1 w2 w3 show ?thesis
    by (simp add: sample_paths)
qed

subsection \<open>A file that cannot be read\<close>

text \<open>
  C7 (as the claim states it, refuted): with a file that does not decode, \<open>load_config\<close>
  returns no configuration, and a file nested too deep for the decoder makes line 169
  raise a RecursionError, which \<open>except (IOError, ValueError)\<close> does not catch.
\<close>

theorem bad_file_no_configuration:
  "load_config sample_env (Some (no_options\<lparr>arg_config := Some ''truncated.json''\<rparr>))
     = Inl (NameError L98)
   \<and> load_config sample_env (Some (no_options\<lparr>arg_config := Some ''deep.json''\<rparr>))
     = Inl (RecursionError L169)
   \<and> load_config sample_env (Some no_options) = Inl (NameError L98)"
  by code_simp

text \<open>
  C7 (amended): a configuration file that cannot be opened (IOError) or does not decode
  (ValueError) is ignored. For every other command-line option, \<open>load_config\<close> with such
  a file merges and resolves the same configuration, and ends as \<open>load_config\<close> with no
  file named does; lines 162 to 219 raise nothing, and the \<open>constraints\<close> that reach
  \<open>validate_config\<close> are those of the baseline.
\<close>

theorem unreadable_file_ignored:
  assumes "json_load e path = RaisesIOError \<or> json_load e path = RaisesValueError"
  shows "merged_config e (Some (ar\<lparr>arg_config := Some path\<rparr>))
           = merged_config e (Some (ar\<lparr>arg_config := None\<rparr>))
       \<and> resolved_config e (Some (ar\<lparr>arg_config := Some path\<rparr>))
           = resolved_config e (Some (ar\<lparr>arg_config := None\<rparr>))
       \<and> load_config e (Some (ar\<lparr>arg_config := Some path\<rparr>))
           = load_config e (Some (ar\<lparr>arg_config := None\<rparr>))
       \<and> (\<exists>c. resolved_config e (Some (ar\<lparr>arg_config := Some path\<rparr>)) = Inr c
              \<and> map_of c ''constraints'' = map_of DEFAULT_CONFIG ''constraints'')"
proof -
  let ?a = "Some (ar\<lparr>arg_config := Some path\<rparr>)" and ?b = "Some (ar\<lparr>arg_config := None\<rparr>)"
  have l: "load_json_file e ?a d = load_json_file e ?b d" for d
    using assms by (auto simp add: load_json_file_def)
  have m: "merged_config e ?a = merged_config e ?b"
    by (simp add: merged_config_def l overload_with_args_def given_def)
  have h: "handle_data_directory e ?a c = handle_data_directory e ?b c" for c
    by (simp add: handle_data_directory_def given_def)
  have r: "resolved_config e ?a = resolved_config e ?b"
    by (simp add: resolved_config_def m h)
  have lc: "load_config e ?a = load_config e ?b"
    by (simp add: load_config_def r)
  have plain: "file_plain e ?a"
    using assms by (auto simp add: file_plain_def file_read_def given_def)
  have fv: "file_value e ?a k = None" for k
    using assms by (auto simp add: file_value_def file_read_def given_def)
  from merged_config_plain [OF plain] obtain mc where mc: "merged_config e ?a = Inr mc"
    by (elim exE)
  have dd: "map_of mc ''data_directory'' = Some PNone"
    and db: "map_of mc ''database'' = Some PNone"
    and si: "map_of mc ''search_index'' = Some PNone"
    by (simp_all add: merged_path_fields [OF plain mc] fv)
  obtain d where dir: "(case given ?a arg_data_dir of
                 Some d \<Rightarrow> PStr d
               | None \<Rightarrow> if PNone = PNone then PStr (user_data_dir e) else PNone) = PStr d"
    by (cases "given ?a arg_data_dir") simp_all
  from resolved_config_from [OF mc dd db si dir]
  obtain c where c: "resolved_config e ?a = Inr c" by (elim exE conjE)
  have "map_of c ''constraints'' = map_of mc ''constraints''"
    by (rule map_of_resolved_other [OF c mc]) simp_all
  also have "\<dots> = map_of DEFAULT_CONFIG ''constraints''"
    by (simp add: map_of_merged_config [OF plain mc] fv)
  finally have "\<exists>c. resolved_config e ?a = Inr c
      \<and> map_of c ''constraints'' = map_of DEFAULT_CONFIG ''constraints''"
    using c by blast
  with m r lc show ?thesis by blast
qed

theorem unreadable_file_ignored_witness:
  "load_config sample_env (Some (no_options\<lparr>arg_port := Some 9999, arg_config := Some ''truncated.json''\<rparr>))
     = load_config sample_env (Some (no_options\<lparr>arg_port := Some 9999, arg_config := None\<rparr>))
   \<and> resolved_config sample_env (Some (no_options\<lparr>arg_port := Some 9999, arg_config := Some ''missing.json''\<rparr>))
     = resolved_config sample_env (Some (no_options\<lparr>arg_port := Some 9999, arg_config := None\<rparr>))
   \<and> resolved_field (resolved_config sample_env
        (Some (no_options\<lparr>arg_port := Some 9999, arg_config := Some ''truncated.json''\<rparr>))) ''constraints''
     = map_of DEFAULT_CONFIG ''constraints''"
proof -
  have j: "json_load sample_env ''truncated.json'' = RaisesIOError
      \<or> json_load sample_env ''truncated.json'' = RaisesValueError"
    "json_load sample_env ''missing.json'' = RaisesIOError
      \<or> json_load sample_env ''missing.json'' = RaisesValueError"
    by (simp_all add: sample_env_def sample_files_def)
  note t = unreadable_file_ignored [OF j(1), of "no_options\<lparr>arg_port := Some 9999\<rparr>"]
  note u = unreadable_file_ignored [OF j(2), of "no_options\<lparr>arg_port := Some 9999\<rparr>"]
  from t obtain c where c: "resolved_config sample_env
        (Some (no_options\<lparr>arg_port := Some 9999, arg_config := Some ''truncated.json''\<rparr>)) = Inr c"
    and cs: "map_of c ''constraints'' = map_of DEFAULT_CONFIG ''constraints''"
    by (elim conjE exE)
  have "resolved_field (resolved_config sample_env
        (Some (no_options\<lparr>arg_port := Some 9999, arg_config := Some ''truncated.json''\<rparr>))) ''constraints''
     = map_of DEFAULT_CONFIG ''constraints''"
    unfolding c by (simp add: resolved_field_def cs)
  with t u show ?thesis by (intro conjI) (elim conjE, assumption)+
qed

subsection \<open>What load_config returns and what it lets through\<close>














subsection \<open>The paths of a returned configuration\<close>

lemma resolved_database_from_file:
  "resolved_field (resolved_config sample_env (Some (no_options\<lparr>arg_config := Some ''paths.json''\<rparr>)))
     ''database'' = Some (PStr ''postgresql://localhost/flatisfy'')"
  by code_simp



end
